theory Spec2Isabelle
  imports Main "HOL-Library.Multiset"
begin

section \<open>Python strings and integers\<close>

text \<open>
  A Python \<open>str\<close> is a sequence of Unicode code points. It is modelled by \<open>string\<close>, each
  \<open>char\<close> standing for the code point of the same number, so the model covers the strings
  over U+0000..U+00FF (Latin-1). The character classes below are Python's on that range.
\<close>

datatype py_error = ValueError | OverflowError | IndexError | OSError | DatabaseError

definition code_point :: "char \<Rightarrow> nat" where
  "code_point c = of_char c"

definition isdecimal_char :: "char \<Rightarrow> bool" where
  \<comment> \<open>General category Nd: what \<open>int()\<close> and the regular expression \<open>\\d\<close> accept.\<close>
  "isdecimal_char c = (48 \<le> code_point c \<and> code_point c \<le> 57)"

definition isdigit_char :: "char \<Rightarrow> bool" where
  \<comment> \<open>\<open>str.isdigit\<close>: Numeric_Type Decimal or Digit. Below U+0100 these are 0-9 and the
      superscripts U+00B2, U+00B3, U+00B9.\<close>
  "isdigit_char c =
     (isdecimal_char c \<or> code_point c = 178 \<or> code_point c = 179 \<or> code_point c = 185)"

definition isspace_char :: "char \<Rightarrow> bool" where
  \<comment> \<open>\<open>str.isspace\<close>, also the set \<open>str.strip()\<close> removes and \<open>\\s\<close> matches.\<close>
  "isspace_char c =
     ((9 \<le> code_point c \<and> code_point c \<le> 13) \<or> (28 \<le> code_point c \<and> code_point c \<le> 32)
      \<or> code_point c = 133 \<or> code_point c = 160)"

definition isdigit :: "string \<Rightarrow> bool" where
  "isdigit s = (s \<noteq> [] \<and> list_all isdigit_char s)"

definition strip :: "string \<Rightarrow> string" where
  "strip s = rev (dropWhile isspace_char (rev (dropWhile isspace_char s)))"

definition digit_value :: "char \<Rightarrow> int" where
  "digit_value c = int (code_point c) - 48"

definition dec_value :: "string \<Rightarrow> int" where
  "dec_value s = foldl (\<lambda>acc c. acc * 10 + digit_value c) 0 s"

fun no_double_underscore :: "string \<Rightarrow> bool" where
  "no_double_underscore (a # b # cs) =
     (\<not> (a = CHR ''_'' \<and> b = CHR ''_'') \<and> no_double_underscore (b # cs))"
| "no_double_underscore cs = True"

definition int_literal_body :: "string \<Rightarrow> bool" where
  \<comment> \<open>Decimal digits, single underscores allowed between two digits.\<close>
  "int_literal_body b =
     (b \<noteq> [] \<and> isdecimal_char (hd b) \<and> isdecimal_char (last b)
      \<and> list_all (\<lambda>c. isdecimal_char c \<or> c = CHR ''_'') b \<and> no_double_underscore b)"

definition int_of_str :: "string \<Rightarrow> py_error + int" where
  \<comment> \<open>\<open>int(s)\<close> for a \<open>str\<close>: surrounding whitespace, an optional sign, then the digits.\<close>
  "int_of_str s =
     (let t = strip s;
          neg = (t \<noteq> [] \<and> hd t = CHR ''-'');
          body = (if t \<noteq> [] \<and> (hd t = CHR ''-'' \<or> hd t = CHR ''+'') then tl t else t)
      in if int_literal_body body
         then Inr ((if neg then - 1 else 1) * dec_value (filter (\<lambda>c. c \<noteq> CHR ''_'') body))
         else Inl ValueError)"

definition int_if_isdigit :: "string \<Rightarrow> py_error + int" where
  \<comment> \<open>\<open>int(text) if text.isdigit() else 0\<close>\<close>
  "int_if_isdigit txt = (if isdigit txt then int_of_str txt else Inr 0)"


datatype pyval = PInt int | PStr string

definition digit_char :: "nat \<Rightarrow> char" where
  "digit_char n = char_of (48 + n)"

function nat_digits :: "nat \<Rightarrow> string" where
  "nat_digits n =
     (if n < 10 then [digit_char n] else nat_digits (n div 10) @ [digit_char (n mod 10)])"
  by pat_completeness auto
termination
  by (relation "measure (\<lambda>n. n)") auto

declare nat_digits.simps [simp del]

definition str_of_int :: "int \<Rightarrow> string" where
  \<comment> \<open>\<open>str(i)\<close> for an \<open>int\<close>\<close>
  "str_of_int i = (if i < 0 then CHR ''-'' # nat_digits (nat (- i)) else nat_digits (nat i))"

fun py_str :: "pyval \<Rightarrow> string" where
  "py_str (PInt i) = str_of_int i"
| "py_str (PStr s) = s"

fun py_int :: "pyval \<Rightarrow> py_error + int" where
  "py_int (PInt i) = Inr i"
| "py_int (PStr s) = int_of_str s"

definition int_if_str_isdigit :: "pyval \<Rightarrow> py_error + int" where
  \<comment> \<open>\<open>int(minutes) if str(minutes).isdigit() else 0\<close>\<close>
  "int_if_str_isdigit v = (if isdigit (py_str v) then py_int v else Inr 0)"

definition dict_get :: "'a option \<Rightarrow> 'a \<Rightarrow> 'a" where
  \<comment> \<open>\<open>d.get(key, default)\<close>, the first argument being the entry of the key\<close>
  "dict_get entry dflt = (case entry of None \<Rightarrow> dflt | Some v \<Rightarrow> v)"

primrec substring_in :: "string \<Rightarrow> string \<Rightarrow> bool" where
  \<comment> \<open>\<open>sub in s\<close>\<close>
  "substring_in sub [] = (sub = [])"
| "substring_in sub (c # cs) = (take (length sub) (c # cs) = sub \<or> substring_in sub cs)"

function split_acc :: "string \<Rightarrow> string \<Rightarrow> string \<Rightarrow> string list" where
  "split_acc sep acc [] = [rev acc]"
| "split_acc sep acc (c # cs) =
     (if sep \<noteq> [] \<and> take (length sep) (c # cs) = sep
      then rev acc # split_acc sep [] (drop (length sep) (c # cs))
      else split_acc sep (c # acc) cs)"
  by pat_completeness auto
termination
  by (relation "measure (\<lambda>(sep, acc, s). length s)") auto

definition str_split :: "string \<Rightarrow> string \<Rightarrow> string list" where
  \<comment> \<open>\<open>s.split(sep)\<close> for a non-empty separator: cut at every occurrence, left to right\<close>
  "str_split sep s = split_acc sep [] s"

fun join :: "string \<Rightarrow> string list \<Rightarrow> string" where
  "join sep [] = []"
| "join sep [x] = x"
| "join sep (x # y # ys) = x @ sep @ join sep (y # ys)"

definition str_replace :: "string \<Rightarrow> string \<Rightarrow> string \<Rightarrow> string" where
  \<comment> \<open>\<open>s.replace(old, new)\<close> for a non-empty \<open>old\<close>: every occurrence, left to right\<close>
  "str_replace old new s = join new (str_split old s)"

definition upper_char :: "char \<Rightarrow> nat list" where
  \<comment> \<open>The code points of \<open>c.upper()\<close>: three characters of the range leave it.\<close>
  "upper_char c =
     (let n = code_point c in
      if (97 \<le> n \<and> n \<le> 122) \<or> (224 \<le> n \<and> n \<le> 254 \<and> n \<noteq> 247) then [n - 32]
      else if n = 223 then [83, 83]
      else if n = 255 then [376]
      else if n = 181 then [924]
      else [n])"

definition upper :: "string \<Rightarrow> nat list" where
  "upper s = concat (map upper_char s)"

definition is_decimal_cp :: "nat \<Rightarrow> bool" where
  "is_decimal_cp n = (48 \<le> n \<and> n \<le> 57)"

fun search_U_digits :: "nat list \<Rightarrow> nat list option" where
  \<comment> \<open>\<open>re.search(r'U\\d+', s)\<close>, the text of the leftmost match\<close>
  "search_U_digits [] = None"
| "search_U_digits (c # cs) =
     (if c = 85 \<and> takeWhile is_decimal_cp cs \<noteq> [] then Some (c # takeWhile is_decimal_cp cs)
      else search_U_digits cs)"


section \<open>The Record Extractor (\<open>scrape_from_page\<close> of scrape_two_step.py)\<close>

text \<open>
  A game record is a Python dict with a fixed set of keys; a key that is absent is \<open>None\<close>
  here, and the empty dict \<open>{}\<close> has every key absent.
\<close>

record game =
  datum :: "string option"
  bewerb :: "string option"
  runde :: "int option"
  heimMannschaft :: "string option"
  gastMannschaft :: "string option"
  actionLink :: "string option"
  ergebnis :: "string option"
  einsatzMinuten :: "pyval option"
  tore :: "pyval option"
  ageGroup :: "string option"
  anstoss :: "int option"
  spielortBezeichnung :: "string option"

definition empty_game :: game where
  "empty_game = \<lparr>datum = None, bewerb = None, runde = None, heimMannschaft = None,
     gastMannschaft = None, actionLink = None, ergebnis = None, einsatzMinuten = None,
     tore = None, ageGroup = None, anstoss = None, spielortBezeichnung = None\<rparr>"

text \<open>
  The parsed page, as \<open>soup.find_all('div', class_=re.compile(r'^c\\d+'))\<close> returns it: of
  every div its class list, the stripped text of its first \<open>span.m_g_text_1\<close> (if it has
  one) and the \<open>title\<close> and \<open>href\<close> attributes of its first \<open>a\<close> (if it has one).
\<close>

record link =
  title :: "string option"
  href :: "string option"

record fragment =
  classes :: "string list"
  span_text :: "string option"
  anchor :: "link option"

definition is_col_class :: "string \<Rightarrow> bool" where
  \<comment> \<open>\<open>cls.startswith('c') and len(cls) == 2 and cls[1].isdigit()\<close>\<close>
  "is_col_class cls = (case cls of [a, b] \<Rightarrow> a = CHR ''c'' \<and> isdigit [b] | _ \<Rightarrow> False)"

definition col_class :: "string list \<Rightarrow> string option" where
  "col_class cs = List.find is_col_class cs"

definition scan_teams :: "fragment \<Rightarrow> string \<Rightarrow> game \<Rightarrow> py_error + game" where
  \<comment> \<open>the branch \<open>col_class == 'c3'\<close>\<close>
  "scan_teams d txt current_game =
     (case anchor d of
        Some lnk \<Rightarrow>
          (let ttl = dict_get (title lnk) [] in
           if substring_in '' - '' ttl
           then (case str_split '' - '' ttl of
                   t0 # t1 # _ \<Rightarrow>
                     Inr (current_game\<lparr>heimMannschaft := Some (strip t0),
                                       gastMannschaft := Some (strip t1),
                                       actionLink := Some (dict_get (href lnk) [])\<rparr>)
                 | _ \<Rightarrow> Inl IndexError)
           else Inr (current_game\<lparr>actionLink := Some (dict_get (href lnk) [])\<rparr>))
      | None \<Rightarrow> Inr (current_game\<lparr>heimMannschaft := Some txt, gastMannschaft := Some []\<rparr>))"

definition scan_div :: "fragment \<Rightarrow> game list \<times> game \<Rightarrow> py_error + game list \<times> game" where
  \<comment> \<open>one round of \<open>for div in all_divs\<close>, on the pair \<open>(games_data, current_game)\<close>\<close>
  "scan_div d st =
     (case col_class (classes d) of
        None \<Rightarrow> Inr st
      | Some col \<Rightarrow>
          (let txt = (case span_text d of None \<Rightarrow> [] | Some t \<Rightarrow> t);
               games_data = fst st;
               current_game = snd st
           in if col = ''c0'' then
                Inr (if current_game \<noteq> empty_game then games_data @ [current_game]
                     else games_data,
                     empty_game\<lparr>datum := Some txt\<rparr>)
              else if col = ''c1'' then Inr (games_data, current_game\<lparr>bewerb := Some txt\<rparr>)
              else if col = ''c2'' then
                (case int_if_isdigit txt of
                   Inl e \<Rightarrow> Inl e
                 | Inr n \<Rightarrow> Inr (games_data, current_game\<lparr>runde := Some n\<rparr>))
              else if col = ''c3'' then
                (case scan_teams d txt current_game of
                   Inl e \<Rightarrow> Inl e
                 | Inr g \<Rightarrow> Inr (games_data, g))
              else if col = ''c4'' then Inr (games_data, current_game\<lparr>ergebnis := Some txt\<rparr>)
              else if col = ''c5'' then
                (case int_if_isdigit txt of
                   Inl e \<Rightarrow> Inl e
                 | Inr n \<Rightarrow> Inr (games_data, current_game\<lparr>einsatzMinuten := Some (PInt n)\<rparr>))
              else if col = ''c6'' then
                (case int_if_isdigit txt of
                   Inl e \<Rightarrow> Inl e
                 | Inr n \<Rightarrow> Inr (games_data, current_game\<lparr>tore := Some (PInt n)\<rparr>))
              else Inr st))"

fun scan_divs :: "fragment list \<Rightarrow> game list \<times> game \<Rightarrow> game list + game list \<times> game" where
  \<comment> \<open>The loop. An exception leaves it with \<open>games_data\<close> as it stands (\<open>Inl\<close>).\<close>
  "scan_divs [] st = Inr st"
| "scan_divs (d # ds) st =
     (case scan_div d st of Inl e \<Rightarrow> Inl (fst st) | Inr st' \<Rightarrow> scan_divs ds st')"


subsection \<open>\<open>datetime.strptime(date_part, '%d.%m.%Y, %H:%M')\<close>\<close>

text \<open>
  CPython's \<open>_strptime\<close> turns the format into a regular expression, each directive a group
  of alternatives tried in order, white space of the format into \<open>\\s+\<close>; it takes the first
  match at the start of the text, fails when text is left over after it, and then builds
  the date, which fails for a day the month does not have and for the year 0. A directive
  is modelled by the list of its matches (value and rest of the text) in the order the
  regular expression tries them.
\<close>

record datetime =
  year :: nat
  month :: nat
  day :: nat
  hour :: nat
  minute :: nat

definition digit_nat :: "char \<Rightarrow> nat" where
  "digit_nat c = code_point c - 48"

definition char_in :: "char \<Rightarrow> char \<Rightarrow> char \<Rightarrow> bool" where
  \<comment> \<open>the character class \<open>[lo-hi]\<close>\<close>
  "char_in lo hi c = (code_point lo \<le> code_point c \<and> code_point c \<le> code_point hi)"

definition two_digits :: "(char \<Rightarrow> bool) \<Rightarrow> (char \<Rightarrow> bool) \<Rightarrow> string \<Rightarrow> (nat \<times> string) list" where
  "two_digits P Q s =
     (case s of
        a # b # r \<Rightarrow> if P a \<and> Q b then [(digit_nat a * 10 + digit_nat b, r)] else []
      | _ \<Rightarrow> [])"

definition one_digit :: "(char \<Rightarrow> bool) \<Rightarrow> string \<Rightarrow> (nat \<times> string) list" where
  "one_digit P s = (case s of a # r \<Rightarrow> if P a then [(digit_nat a, r)] else [] | _ \<Rightarrow> [])"

definition literal :: "char \<Rightarrow> string \<Rightarrow> string list" where
  "literal c s = (case s of a # r \<Rightarrow> if a = c then [r] else [] | _ \<Rightarrow> [])"

definition directive_d :: "string \<Rightarrow> (nat \<times> string) list" where
  \<comment> \<open>\<open>3[0-1]|[1-2]\\d|0[1-9]|[1-9]| [1-9]\<close>\<close>
  "directive_d s =
     two_digits (\<lambda>c. c = CHR ''3'') (char_in CHR ''0'' CHR ''1'') s
     @ two_digits (char_in CHR ''1'' CHR ''2'') isdecimal_char s
     @ two_digits (\<lambda>c. c = CHR ''0'') (char_in CHR ''1'' CHR ''9'') s
     @ one_digit (char_in CHR ''1'' CHR ''9'') s
     @ concat (map (one_digit (char_in CHR ''1'' CHR ''9'')) (literal CHR '' '' s))"

definition directive_m :: "string \<Rightarrow> (nat \<times> string) list" where
  \<comment> \<open>\<open>1[0-2]|0[1-9]|[1-9]\<close>\<close>
  "directive_m s =
     two_digits (\<lambda>c. c = CHR ''1'') (char_in CHR ''0'' CHR ''2'') s
     @ two_digits (\<lambda>c. c = CHR ''0'') (char_in CHR ''1'' CHR ''9'') s
     @ one_digit (char_in CHR ''1'' CHR ''9'') s"

definition directive_Y :: "string \<Rightarrow> (nat \<times> string) list" where
  \<comment> \<open>\<open>\\d\\d\\d\\d\<close>\<close>
  "directive_Y s =
     (case s of
        a # b # c # d # r \<Rightarrow>
          if isdecimal_char a \<and> isdecimal_char b \<and> isdecimal_char c \<and> isdecimal_char d
          then [(digit_nat a * 1000 + digit_nat b * 100 + digit_nat c * 10 + digit_nat d, r)]
          else []
      | _ \<Rightarrow> [])"

definition directive_H :: "string \<Rightarrow> (nat \<times> string) list" where
  \<comment> \<open>\<open>2[0-3]|[0-1]\\d|\\d\<close>\<close>
  "directive_H s =
     two_digits (\<lambda>c. c = CHR ''2'') (char_in CHR ''0'' CHR ''3'') s
     @ two_digits (char_in CHR ''0'' CHR ''1'') isdecimal_char s
     @ one_digit isdecimal_char s"

definition directive_M :: "string \<Rightarrow> (nat \<times> string) list" where
  \<comment> \<open>\<open>[0-5]\\d|\\d\<close>\<close>
  "directive_M s =
     two_digits (char_in CHR ''0'' CHR ''5'') isdecimal_char s @ one_digit isdecimal_char s"

definition whitespace :: "string \<Rightarrow> string list" where
  \<comment> \<open>\<open>\\s+\<close>: one or more white space characters, the longest run first\<close>
  "whitespace s = map (\<lambda>k. drop k s) (rev [1..<Suc (length (takeWhile isspace_char s))])"

definition followed_by :: "('a \<times> string) list \<Rightarrow> char \<Rightarrow> ('a \<times> string) list" where
  \<comment> \<open>the matches that go on with the character \<open>c\<close>\<close>
  "followed_by ms c = [(v, r'). (v, r) \<leftarrow> ms, r' \<leftarrow> literal c r]"

definition format_matches :: "string \<Rightarrow> ((nat \<times> nat \<times> nat \<times> nat \<times> nat) \<times> string) list" where
  \<comment> \<open>the matches of \<open>%d\\.%m\\.%Y,\\s+%H:%M\<close> at the start of the text, in order\<close>
  "format_matches s =
     [((d, m, y, h, mi), r6).
        (d, r1) \<leftarrow> followed_by (directive_d s) CHR ''.'',
        (m, r2) \<leftarrow> followed_by (directive_m r1) CHR ''.'',
        (y, r3) \<leftarrow> followed_by (directive_Y r2) CHR '','',
        r4 \<leftarrow> whitespace r3,
        (h, r5) \<leftarrow> followed_by (directive_H r4) CHR '':'',
        (mi, r6) \<leftarrow> directive_M r5]"

definition is_leap :: "nat \<Rightarrow> bool" where
  "is_leap y = (y mod 4 = 0 \<and> (y mod 100 \<noteq> 0 \<or> y mod 400 = 0))"

definition days_in_month :: "nat \<Rightarrow> nat \<Rightarrow> nat" where
  "days_in_month y m =
     (if m = 2 then (if is_leap y then 29 else 28)
      else if m = 4 \<or> m = 6 \<or> m = 9 \<or> m = 11 then 30 else 31)"

definition strptime :: "string \<Rightarrow> datetime option" where
  \<comment> \<open>\<open>None\<close>: \<open>ValueError\<close>\<close>
  "strptime s =
     (case format_matches s of
        [] \<Rightarrow> None
      | ((d, m, y, h, mi), rest) # _ \<Rightarrow>
          if rest \<noteq> [] then None
          else if 1 \<le> y \<and> d \<le> days_in_month y m
          then Some \<lparr>year = y, month = m, day = d, hour = h, minute = mi\<rparr>
          else None)"

subsection \<open>Post-processing and the extractor as a whole\<close>

text \<open>
  \<open>date_obj.timestamp()\<close> reads the time zone of the process: it is the parameter
  \<open>timestamp\<close>, from a naive local date and time (seconds and microseconds zero) to the
  seconds since the epoch, \<open>None\<close> where the platform raises. The result is a whole number
  of seconds below \<open>2^53 / 1000\<close>, so the float product by 1000 and \<open>int()\<close> are exact.
\<close>

definition parse_anstoss :: "(datetime \<Rightarrow> int option) \<Rightarrow> string \<Rightarrow> int" where
  "parse_anstoss timestamp datum_str =
     (if datum_str \<noteq> [] \<and> CHR ''.'' \<in> set datum_str
      then (case strptime (strip (str_replace '' Uhr'' [] datum_str)) of
              None \<Rightarrow> 0
            | Some date_obj \<Rightarrow> (case timestamp date_obj of None \<Rightarrow> 0 | Some t \<Rightarrow> t * 1000))
      else 0)"

definition age_group_of :: "string \<Rightarrow> string" where
  "age_group_of bewerb_str =
     (case search_U_digits (upper bewerb_str) of
        Some age_match \<Rightarrow> map char_of age_match
      | None \<Rightarrow> [])"

definition post_process :: "(datetime \<Rightarrow> int option) \<Rightarrow> game \<Rightarrow> game" where
  \<comment> \<open>one round of \<open>for game in games_data\<close>\<close>
  "post_process timestamp g =
     g\<lparr>ageGroup := Some (age_group_of (dict_get (bewerb g) [])),
       anstoss := Some (parse_anstoss timestamp (dict_get (datum g) []))\<rparr>"

definition flush_last :: "game list \<times> game \<Rightarrow> game list" where
  \<comment> \<open>\<open>if current_game and 'datum' in current_game: games_data.append(current_game)\<close>\<close>
  "flush_last st =
     (if snd st \<noteq> empty_game \<and> datum (snd st) \<noteq> None then fst st @ [snd st] else fst st)"

definition scrape_from_page :: "(datetime \<Rightarrow> int option) \<Rightarrow> fragment list \<Rightarrow> game list" where
  \<comment> \<open>From \<open>games_data = []\<close> on: what the function returns for the divs of the page. An
      exception in the scan is caught by the handler around the whole parse, which returns
      \<open>games_data\<close> as it stands, not post-processed.\<close>
  "scrape_from_page timestamp all_divs =
     (case scan_divs all_divs ([], empty_game) of
        Inl games_data \<Rightarrow> games_data
      | Inr st \<Rightarrow> map (post_process timestamp) (flush_last st))"

text \<open>An environment for examples: a process whose time zone is UTC.\<close>

definition days_before_year :: "nat \<Rightarrow> nat" where
  "days_before_year y = (y - 1) * 365 + (y - 1) div 4 - (y - 1) div 100 + (y - 1) div 400"

definition days_before_month :: "nat \<Rightarrow> nat \<Rightarrow> nat" where
  "days_before_month y m = sum_list (map (days_in_month y) [1..<m])"

definition utc_timestamp :: "datetime \<Rightarrow> int option" where
  "utc_timestamp dt =
     Some ((int (days_before_year (year dt) + days_before_month (year dt) (month dt) + day dt)
             - 719163) * 86400
           + int (hour dt) * 3600 + int (minute dt) * 60)"


section \<open>The store (\<open>init_database\<close>, \<open>save_player_to_db\<close>, \<open>save_games_to_db\<close>)\<close>

text \<open>
  The two tables as \<open>init_database\<close> declares them, a nullable column an \<open>option\<close>, the rows
  in rowid order. \<open>games_seq\<close> is the entry of \<open>games\<close> in \<open>sqlite_sequence\<close>, which
  \<open>AUTOINCREMENT\<close> keeps. The model is of scrape_two_step.py; the table of
  scrape_two_step_clickevent-working.py has no column \<open>age_group\<close> and its
  \<open>save_games_to_db\<close> is the same code without that column.
\<close>

record player_row =
  p_player_id :: int
  player_name :: string
  team :: "string option"
  season_year :: "int option"
  p_last_updated :: "string option"

record game_row =
  g_id :: int
  g_player_id :: int
  game_date :: "string option"
  competition :: "string option"
  age_group :: "string option"
  g_round :: "int option"
  home_team :: "string option"
  away_team :: "string option"
  result :: "string option"
  minutes_played :: "int option"
  goals :: "int option"
  location :: "string option"
  match_link :: "string option"
  game_timestamp :: int
  last_updated :: "string option"

record db =
  players :: "player_row list"
  games :: "game_row list"
  games_seq :: int

definition init_database :: db where
  \<comment> \<open>the database \<open>init_database\<close> creates where there was no file\<close>
  "init_database = \<lparr>players = [], games = [], games_seq = 0\<rparr>"

definition sqlite_int :: "int \<Rightarrow> bool" where
  \<comment> \<open>SQLite's INTEGER is a signed 64-bit number; binding another \<open>int\<close> raises
      \<open>OverflowError\<close>.\<close>
  "sqlite_int i = (- 9223372036854775808 \<le> i \<and> i \<le> 9223372036854775807)"

definition save_player_to_db ::
  "string \<Rightarrow> int \<Rightarrow> string \<Rightarrow> string \<Rightarrow> int \<Rightarrow> db \<Rightarrow> py_error + db" where
  \<comment> \<open>\<open>INSERT OR REPLACE\<close>; \<open>now\<close> is what \<open>CURRENT_TIMESTAMP\<close> reads. The rowid of
      \<open>players\<close> is \<open>player_id\<close>.\<close>
  "save_player_to_db now player_id name team_name yr d =
     (if sqlite_int player_id \<and> sqlite_int yr
      then Inr (d\<lparr>players :=
             insort_key p_player_id
               \<lparr>p_player_id = player_id, player_name = name, team = Some team_name,
                season_year = Some yr, p_last_updated = Some now\<rparr>
               (filter (\<lambda>p. p_player_id p \<noteq> player_id) (players d))\<rparr>)
      else Inl OverflowError)"

definition same_key :: "int \<Rightarrow> int \<Rightarrow> game_row \<Rightarrow> bool" where
  \<comment> \<open>\<open>WHERE player_id = ? AND game_timestamp = ?\<close>\<close>
  "same_key player_id timestamp r = (g_player_id r = player_id \<and> game_timestamp r = timestamp)"

definition updated_row :: "string \<Rightarrow> game \<Rightarrow> int \<Rightarrow> int \<Rightarrow> game_row \<Rightarrow> game_row" where
  \<comment> \<open>the \<open>SET\<close> list of the \<open>UPDATE\<close>\<close>
  "updated_row now g minutes_int goals_int r =
     r\<lparr>competition := Some (dict_get (bewerb g) []),
       age_group := Some (dict_get (ageGroup g) []),
       g_round := Some (dict_get (runde g) 0),
       home_team := Some (dict_get (heimMannschaft g) []),
       away_team := Some (dict_get (gastMannschaft g) []),
       result := Some (dict_get (ergebnis g) []),
       minutes_played := Some minutes_int,
       goals := Some goals_int,
       location := Some (dict_get (spielortBezeichnung g) []),
       match_link := Some (dict_get (actionLink g) []),
       last_updated := Some now\<rparr>"

definition new_row ::
  "int \<Rightarrow> string \<Rightarrow> int \<Rightarrow> string option \<Rightarrow> game \<Rightarrow> int \<Rightarrow> int \<Rightarrow> int \<Rightarrow> game_row" where
  \<comment> \<open>the row of the \<open>INSERT\<close>; \<open>id\<close> and \<open>last_updated\<close> get their defaults\<close>
  "new_row new_id now player_id game_date_str g minutes_int goals_int timestamp =
     \<lparr>g_id = new_id, g_player_id = player_id, game_date = game_date_str,
      competition = Some (dict_get (bewerb g) []),
      age_group = Some (dict_get (ageGroup g) []),
      g_round = Some (dict_get (runde g) 0),
      home_team = Some (dict_get (heimMannschaft g) []),
      away_team = Some (dict_get (gastMannschaft g) []),
      result = Some (dict_get (ergebnis g) []),
      minutes_played = Some minutes_int,
      goals = Some goals_int,
      location = Some (dict_get (spielortBezeichnung g) []),
      match_link = Some (dict_get (actionLink g) []),
      game_timestamp = timestamp,
      last_updated = Some now\<rparr>"

definition next_id :: "db \<Rightarrow> int" where
  \<comment> \<open>\<open>AUTOINCREMENT\<close>: one more than the largest rowid the table ever held\<close>
  "next_id d = fold max (map g_id (games d)) (games_seq d) + 1"

text \<open>
  One round of \<open>for game in games_data\<close>. \<open>fromtimestamp\<close> is
  \<open>datetime.fromtimestamp(timestamp / 1000).strftime('%Y-%m-%d %H:%M:%S')\<close>, which reads the
  time zone of the process and raises outside the range of the platform; \<open>now\<close> is what
  \<open>CURRENT_TIMESTAMP\<close> reads when the statement runs. The result says whether a row was
  inserted.
\<close>

definition save_game ::
  "(int \<Rightarrow> py_error + string) \<Rightarrow> string \<Rightarrow> int \<Rightarrow> game \<Rightarrow> db \<Rightarrow> py_error + db \<times> bool" where
  "save_game fromtimestamp now player_id g d =
     (let timestamp = dict_get (anstoss g) 0 in
      case (if timestamp \<noteq> 0 then map_sum id Some (fromtimestamp timestamp) else Inr None) of
        Inl e \<Rightarrow> Inl e
      | Inr game_date_str \<Rightarrow>
          if sqlite_int player_id \<and> sqlite_int timestamp then
            (let existing = filter (same_key player_id timestamp) (games d) in
             case int_if_str_isdigit (dict_get (einsatzMinuten g) (PStr ''0'')) of
               Inl e \<Rightarrow> Inl e
             | Inr minutes_int \<Rightarrow>
                 (case int_if_str_isdigit (dict_get (tore g) (PStr ''0'')) of
                    Inl e \<Rightarrow> Inl e
                  | Inr goals_int \<Rightarrow>
                      if sqlite_int (dict_get (runde g) 0) \<and> sqlite_int minutes_int
                         \<and> sqlite_int goals_int
                      then
                        if existing \<noteq> [] then
                          Inr (d\<lparr>games :=
                                 map (\<lambda>r. if same_key player_id timestamp r
                                          then updated_row now g minutes_int goals_int r
                                          else r) (games d)\<rparr>,
                               False)
                        else if sqlite_int (next_id d) then
                          Inr (d\<lparr>games := games d
                                   @ [new_row (next_id d) now player_id game_date_str g
                                        minutes_int goals_int timestamp],
                                 games_seq := next_id d\<rparr>,
                               True)
                        else Inl DatabaseError
                      else Inl OverflowError))
          else Inl OverflowError)"

fun save_games ::
  "(int \<Rightarrow> py_error + string) \<Rightarrow> (nat \<Rightarrow> string) \<Rightarrow> int \<Rightarrow> game list \<Rightarrow> db \<times> nat \<times> nat
     \<Rightarrow> py_error + db \<times> nat \<times> nat" where
  \<comment> \<open>the loop, on the database and the counters \<open>new_games\<close> and \<open>updated_games\<close>;
      \<open>now i\<close> is the clock at the statement of the \<open>i\<close>-th record\<close>
  "save_games fromtimestamp now player_id [] st = Inr st"
| "save_games fromtimestamp now player_id (g # gs) st =
     (case save_game fromtimestamp (now 0) player_id g (fst st) of
        Inl e \<Rightarrow> Inl e
      | Inr (d', inserted) \<Rightarrow>
          save_games fromtimestamp (\<lambda>i. now (Suc i)) player_id gs
            (d', if inserted then fst (snd st) + 1 else fst (snd st),
                 if inserted then snd (snd st) else snd (snd st) + 1))"

definition save_games_to_db ::
  "(int \<Rightarrow> py_error + string) \<Rightarrow> (nat \<Rightarrow> string) \<Rightarrow> int \<Rightarrow> game list \<Rightarrow> db
     \<Rightarrow> py_error + db \<times> nat \<times> nat" where
  \<comment> \<open>The database after the commit with \<open>(new_games, updated_games)\<close>. An exception leaves
      the function before the commit: the database stays as it was.\<close>
  "save_games_to_db fromtimestamp now player_id games_data d =
     save_games fromtimestamp now player_id games_data (d, 0, 0)"


section \<open>The reports (\<open>generate_minutes_chart\<close>, \<open>generate_goals_chart\<close>)\<close>

text \<open>
  The queries, clause by clause. A row of \<open>players p LEFT JOIN games g\<close> is a player with
  one of the player's games, or with no game (all columns of \<open>g\<close> NULL) when the player has
  none.
\<close>

type_synonym joined_row = "player_row \<times> game_row option"

definition left_join :: "db \<Rightarrow> joined_row list" where
  \<comment> \<open>\<open>FROM players p LEFT JOIN games g ON p.player_id = g.player_id\<close>\<close>
  "left_join d =
     concat (map (\<lambda>p. let gs = filter (\<lambda>g. g_player_id g = p_player_id p) (games d)
                       in if gs = [] then [(p, None)] else map (\<lambda>g. (p, Some g)) gs)
                 (players d))"

fun str_le :: "string \<Rightarrow> string \<Rightarrow> bool" where
  \<comment> \<open>the order of TEXT values (BINARY collation)\<close>
  "str_le [] ys = True"
| "str_le (x # xs) [] = False"
| "str_le (x # xs) (y # ys) = (code_point x < code_point y \<or> (x = y \<and> str_le xs ys))"

definition in_window :: "string option \<Rightarrow> bool" where
  \<comment> \<open>\<open>game_date BETWEEN '2025-08-29' and '2026-06-08'\<close> is true; for NULL it is NULL\<close>
  "in_window date_str =
     (case date_str of
        None \<Rightarrow> False
      | Some s \<Rightarrow> str_le ''2025-08-29'' s \<and> str_le s ''2026-06-08'')"

definition where_window :: "joined_row list \<Rightarrow> joined_row list" where
  \<comment> \<open>\<open>WHERE g.game_date BETWEEN '2025-08-29' and '2026-06-08'\<close>\<close>
  "where_window rows =
     filter (\<lambda>row. case snd row of None \<Rightarrow> False | Some g \<Rightarrow> in_window (game_date g)) rows"

definition group_key :: "joined_row \<Rightarrow> int \<times> string" where
  "group_key row = (p_player_id (fst row), player_name (fst row))"

definition group_by :: "joined_row list \<Rightarrow> ((int \<times> string) \<times> joined_row list) list" where
  \<comment> \<open>\<open>GROUP BY p.player_id, p.player_name\<close>: the groups with their keys\<close>
  "group_by rows =
     map (\<lambda>k. (k, filter (\<lambda>row. group_key row = k) rows)) (remdups (map group_key rows))"

fun sql_sum :: "int option list \<Rightarrow> int option \<Rightarrow> py_error + int option" where
  \<comment> \<open>\<open>SUM\<close>: NULL values are skipped, no value gives NULL, a sum outside the 64-bit range
      is an error\<close>
  "sql_sum [] acc = Inr acc"
| "sql_sum (None # vs) acc = sql_sum vs acc"
| "sql_sum (Some v # vs) acc =
     (let s = (case acc of None \<Rightarrow> v | Some a \<Rightarrow> a + v)
      in if sqlite_int s then sql_sum vs (Some s) else Inl DatabaseError)"

definition column :: "(game_row \<Rightarrow> int option) \<Rightarrow> joined_row \<Rightarrow> int option" where
  "column col row = (case snd row of None \<Rightarrow> None | Some g \<Rightarrow> col g)"

fun select_sums ::
  "(game_row \<Rightarrow> int option) \<Rightarrow> ((int \<times> string) \<times> joined_row list) list
     \<Rightarrow> py_error + (string \<times> int option) list" where
  \<comment> \<open>\<open>SELECT p.player_name, SUM(g.col)\<close>, a row for every group\<close>
  "select_sums col [] = Inr []"
| "select_sums col (grp # grps) =
     (case sql_sum (map (column col) (snd grp)) None of
        Inl e \<Rightarrow> Inl e
      | Inr s \<Rightarrow>
          (case select_sums col grps of
             Inl e \<Rightarrow> Inl e
           | Inr rows \<Rightarrow> Inr ((snd (fst grp), s) # rows)))"

definition sql_le :: "int option \<Rightarrow> int option \<Rightarrow> bool" where
  \<comment> \<open>the order of \<open>ORDER BY\<close>: NULL is the least value\<close>
  "sql_le a b = (case a of None \<Rightarrow> True | Some x \<Rightarrow> (case b of None \<Rightarrow> False | Some y \<Rightarrow> x \<le> y))"

fun insert_by ::
  "('a \<Rightarrow> 'a \<Rightarrow> bool) \<Rightarrow> 'a \<Rightarrow> 'a list \<Rightarrow> 'a list" where
  "insert_by le x [] = [x]"
| "insert_by le x (y # ys) = (if le x y then x # y # ys else y # insert_by le x ys)"

definition order_by_asc :: "(string \<times> int option) list \<Rightarrow> (string \<times> int option) list" where
  \<comment> \<open>\<open>ORDER BY\<close> the sum \<open>ASC\<close>; SQL leaves the order of equal sums open\<close>
  "order_by_asc rows = foldr (insert_by (\<lambda>a b. sql_le (snd a) (snd b))) rows []"

definition order_by_desc :: "(string \<times> int option) list \<Rightarrow> (string \<times> int option) list" where
  \<comment> \<open>\<open>ORDER BY\<close> the sum \<open>DESC\<close>\<close>
  "order_by_desc rows = foldr (insert_by (\<lambda>a b. sql_le (snd b) (snd a))) rows []"

definition having_positive :: "(string \<times> int option) list \<Rightarrow> (string \<times> int option) list" where
  \<comment> \<open>\<open>HAVING SUM(g.goals) > 0\<close>\<close>
  "having_positive rows =
     filter (\<lambda>row. case snd row of None \<Rightarrow> False | Some s \<Rightarrow> 0 < s) rows"

definition chart_input :: "(string \<times> int option) list \<Rightarrow> (string list \<times> int list) option" where
  \<comment> \<open>From \<open>results = cursor.fetchall()\<close> to the two lists handed to \<open>plt.barh\<close>; \<open>None\<close>
      when the function returns before it draws.\<close>
  "chart_input results =
     (if results = [] then None
      else Some (map fst results,
                 map (\<lambda>row. case snd row of
                              None \<Rightarrow> 0
                            | Some s \<Rightarrow> if s \<noteq> 0 then s else 0) results))"

definition minutes_query :: "db \<Rightarrow> py_error + (string \<times> int option) list" where
  "minutes_query d =
     map_sum id order_by_desc
       (select_sums minutes_played (group_by (where_window (left_join d))))"

definition generate_minutes_chart :: "db \<Rightarrow> py_error + (string list \<times> int list) option" where
  "generate_minutes_chart d = map_sum id chart_input (minutes_query d)"

definition goals_query :: "db \<Rightarrow> py_error + (string \<times> int option) list" where
  "goals_query d =
     map_sum id (\<lambda>rows. order_by_desc (having_positive rows))
       (select_sums goals (group_by (where_window (left_join d))))"

definition generate_goals_chart :: "db \<Rightarrow> py_error + (string list \<times> int list) option" where
  "generate_goals_chart d = map_sum id chart_input (goals_query d)"

text \<open>
  The two functions of scrape_two_step_clickevent-working.py: no \<open>WHERE\<close>, no \<open>HAVING\<close>,
  the goals in ascending order.
\<close>

definition minutes_query_clickevent :: "db \<Rightarrow> py_error + (string \<times> int option) list" where
  "minutes_query_clickevent d =
     map_sum id order_by_desc (select_sums minutes_played (group_by (left_join d)))"

definition generate_minutes_chart_clickevent ::
  "db \<Rightarrow> py_error + (string list \<times> int list) option" where
  "generate_minutes_chart_clickevent d = map_sum id chart_input (minutes_query_clickevent d)"

definition goals_query_clickevent :: "db \<Rightarrow> py_error + (string \<times> int option) list" where
  "goals_query_clickevent d =
     map_sum id order_by_asc (select_sums goals (group_by (left_join d)))"

definition generate_goals_chart_clickevent ::
  "db \<Rightarrow> py_error + (string list \<times> int list) option" where
  "generate_goals_chart_clickevent d = map_sum id chart_input (goals_query_clickevent d)"


section \<open>Notions used in the statements\<close>

definition row_key :: "game_row \<Rightarrow> int \<times> int" where
  \<comment> \<open>the business key of a stored game: \<open>UNIQUE(player_id, game_timestamp)\<close>\<close>
  "row_key r = (g_player_id r, game_timestamp r)"

definition game_date_of :: "(int \<Rightarrow> py_error + string) \<Rightarrow> int \<Rightarrow> py_error + string option" where
  \<comment> \<open>the value of \<open>game_date\<close> in \<open>save_games_to_db\<close>\<close>
  "game_date_of fromtimestamp timestamp =
     (if timestamp \<noteq> 0 then map_sum id Some (fromtimestamp timestamp) else Inr None)"

definition window_games :: "db \<Rightarrow> player_row \<Rightarrow> game_row list" where
  \<comment> \<open>the games of a player inside the date window of the two queries\<close>
  "window_games d p =
     filter (\<lambda>g. g_player_id g = p_player_id p \<and> in_window (game_date g)) (games d)"

definition player_games :: "db \<Rightarrow> player_row \<Rightarrow> game_row list" where
  \<comment> \<open>all games of a player\<close>
  "player_games d p = filter (\<lambda>g. g_player_id g = p_player_id p) (games d)"

definition unknown_time_null :: "game_row \<Rightarrow> bool" where
  \<comment> \<open>a row with timestamp 0, the unknown time, has a NULL \<open>game_date\<close>\<close>
  "unknown_time_null r = (if game_timestamp r = 0 then game_date r = None else True)"

definition non_null :: "'a option list \<Rightarrow> 'a list" where
  \<comment> \<open>the values that are not NULL\<close>
  "non_null vs = concat (map (\<lambda>v. case v of None \<Rightarrow> [] | Some x \<Rightarrow> [x]) vs)"

definition sum_non_null :: "int option list \<Rightarrow> int option" where
  \<comment> \<open>the sum of a column as a number: NULL when no value is there\<close>
  "sum_non_null vs = (if non_null vs = [] then None else Some (sum_list (non_null vs)))"

definition player_key :: "player_row \<Rightarrow> int \<times> string" where
  \<comment> \<open>the group of a player under \<open>GROUP BY p.player_id, p.player_name\<close>\<close>
  "player_key p = (p_player_id p, player_name p)"

primrec first_cut :: "string \<Rightarrow> string \<Rightarrow> string \<times> string" where
  \<comment> \<open>In the words of the specification, a text split on the first separator: what is
      before it and what is after it (the whole text and nothing, if there is none).\<close>
  "first_cut sep [] = ([], [])"
| "first_cut sep (c # cs) =
     (if take (length sep) (c # cs) = sep then ([], drop (length sep) (c # cs))
      else (c # fst (first_cut sep cs), snd (first_cut sep cs)))"

section \<open>Integer fields\<close>

lemma strip_id:
  assumes "s \<noteq> []" and "\<not> isspace_char (hd s)" and "\<not> isspace_char (last s)"
  shows "strip s = s"
proof -
  from assms have front: "dropWhile isspace_char s = s"
    by (cases s) auto
  from assms have "rev s \<noteq> []" and "\<not> isspace_char (hd (rev s))"
    by (auto simp: hd_rev)
  then have rear: "dropWhile isspace_char (rev s) = rev s"
    by (cases "rev s") auto
  show ?thesis
    unfolding strip_def front rear by simp
qed

lemma no_underscore_no_double: "CHR ''_'' \<notin> set s \<Longrightarrow> no_double_underscore s"
  by (induction s rule: no_double_underscore.induct) auto

lemma int_of_str_digits:
  assumes "s \<noteq> []" and "list_all isdecimal_char s"
  shows "int_of_str s = Inr (dec_value s)"
proof -
  have plain: "\<not> isspace_char c \<and> c \<noteq> CHR ''-'' \<and> c \<noteq> CHR ''+'' \<and> c \<noteq> CHR ''_''"
    if "isdecimal_char c" for c
    using that by (auto simp: isdecimal_char_def isspace_char_def code_point_def)
  have first: "isdecimal_char (hd s)" and final: "isdecimal_char (last s)"
    using assms by (auto simp: list_all_iff)
  have stripped: "strip s = s"
    using strip_id [OF assms(1)] plain first final by blast
  have none: "CHR ''_'' \<notin> set s"
    using assms(2) plain by (auto simp: list_all_iff)
  have kept: "filter (\<lambda>c. c \<noteq> CHR ''_'') s = s"
    using none by (induction s) auto
  have body: "int_literal_body s"
    unfolding int_literal_body_def
    using assms first final no_underscore_no_double [OF none] by (auto simp: list_all_iff)
  show ?thesis
    unfolding int_of_str_def Let_def stripped using plain [OF first] body kept assms(1) by simp
qed

lemma isdigit_ascii:
  assumes "list_all (\<lambda>c. code_point c < 128) txt"
  shows "isdigit txt \<longleftrightarrow> txt \<noteq> [] \<and> list_all isdecimal_char txt"
  using assms unfolding isdigit_def list_all_iff isdigit_char_def by fastforce

text \<open>
  On text of ASCII characters both conversions do what the specification says: decimal
  digits give their value, anything else gives 0.
\<close>

lemma int_if_isdigit_ascii:
  assumes "list_all (\<lambda>c. code_point c < 128) txt"
  shows "int_if_isdigit txt
           = Inr (if txt \<noteq> [] \<and> list_all isdecimal_char txt then dec_value txt else 0)"
  unfolding int_if_isdigit_def using isdigit_ascii [OF assms] int_of_str_digits by auto

lemma int_if_str_isdigit_ascii:
  assumes "list_all (\<lambda>c. code_point c < 128) txt"
  shows "int_if_str_isdigit (PStr txt)
           = Inr (if txt \<noteq> [] \<and> list_all isdecimal_char txt then dec_value txt else 0)"
  unfolding int_if_str_isdigit_def using isdigit_ascii [OF assms] int_of_str_digits by auto

lemma int_if_isdigit_examples:
  "int_if_isdigit ''45'' = Inr 45" "int_if_isdigit (''45'' @ [CHR 0x27]) = Inr 0"
  "int_if_str_isdigit (PStr ''45'') = Inr 45" "int_if_str_isdigit (PInt 45) = Inr 45"
  by code_simp+

text \<open>
  C6 (digit-only text parses to its integer value, any other text to 0, in the Record
  Extractor and in the store layer): the superscript two, U+00B2, is a text for which
  \<open>str.isdigit()\<close> holds and \<open>int()\<close> raises \<open>ValueError\<close>. Neither conversion gives an
  integer for it.
\<close>

theorem superscript_digit_raises:
  "int_if_isdigit [CHR 0xB2] = Inl ValueError
   \<and> int_if_str_isdigit (PStr [CHR 0xB2]) = Inl ValueError"
  by code_simp

text \<open>
  In the extractor the exception ends the parse of the page: the records flushed so far
  are returned without age group and timestamp, the record being built is lost. In the
  store it ends \<open>save_games_to_db\<close> before the commit.
\<close>

lemma superscript_digit_ends_scan:
  "scrape_from_page timestamp
     [\<lparr>classes = [''c0''], span_text = Some ''15.11.2025, 11:30 Uhr'', anchor = None\<rparr>,
      \<lparr>classes = [''c5''], span_text = Some [CHR 0xB2], anchor = None\<rparr>] = []"
proof -
  have "scan_divs
     [\<lparr>classes = [''c0''], span_text = Some ''15.11.2025, 11:30 Uhr'', anchor = None\<rparr>,
      \<lparr>classes = [''c5''], span_text = Some [CHR 0xB2], anchor = None\<rparr>] ([], empty_game)
     = Inl []"
    by code_simp
  then show ?thesis
    unfolding scrape_from_page_def by simp
qed

lemma superscript_digit_ends_save:
  "save_games_to_db fromtimestamp now 1454580 [empty_game\<lparr>tore := Some (PStr [CHR 0xB2])\<rparr>]
     init_database = Inl ValueError"
proof -
  have "int_if_str_isdigit (PStr [CHR 0xB2]) = Inl ValueError"
    and "int_if_str_isdigit (PStr ''0'') = Inr 0"
    by code_simp+
  then show ?thesis
    by (simp add: save_games_to_db_def save_game_def empty_game_def dict_get_def sqlite_int_def)
qed

section \<open>Records without a date\<close>

lemma scan_competition_then_date:
  "scan_divs
     [\<lparr>classes = [''c1''], span_text = Some ''Liga'', anchor = None\<rparr>,
      \<lparr>classes = [''c0''], span_text = Some ''15.11.2025, 11:30 Uhr'', anchor = None\<rparr>]
     ([], empty_game)
   = Inr ([empty_game\<lparr>bewerb := Some ''Liga''\<rparr>],
          empty_game\<lparr>datum := Some ''15.11.2025, 11:30 Uhr''\<rparr>)"
  by code_simp

text \<open>
  C3 (every emitted record carries a date field): a column-1 fragment before the first
  column-0 fragment makes a buffered record without \<open>datum\<close>, and the column-0 branch
  flushes whatever is buffered. Only the flush after the loop asks for \<open>datum\<close>. The first
  of the two records emitted here has no date field.
\<close>

theorem record_without_date_emitted:
  "map datum (scrape_from_page timestamp
      [\<lparr>classes = [''c1''], span_text = Some ''Liga'', anchor = None\<rparr>,
       \<lparr>classes = [''c0''], span_text = Some ''15.11.2025, 11:30 Uhr'', anchor = None\<rparr>])
   = [None, Some ''15.11.2025, 11:30 Uhr'']"
  unfolding scrape_from_page_def scan_competition_then_date
  by (simp add: flush_last_def post_process_def empty_game_def)

lemma flush_last_has_date:
  "flush_last (games_data, current_game) = games_data @ [g] \<Longrightarrow> datum g \<noteq> None"
  by (auto simp: flush_last_def split: if_splits)


section \<open>The store: keys, idempotence\<close>

lemma row_key_updated [simp]: "row_key (updated_row t g m n r) = row_key r"
  by (simp add: row_key_def updated_row_def)

lemma row_key_new [simp]: "row_key (new_row i t p ds g m n ts) = (p, ts)"
  by (simp add: row_key_def new_row_def)

lemma same_key_row_key: "same_key p t r \<longleftrightarrow> row_key r = (p, t)"
  by (auto simp: same_key_def row_key_def)

lemma filter_same_key_empty:
  "filter (same_key p t) rows = [] \<longleftrightarrow> (p, t) \<notin> set (map row_key rows)"
  by (auto simp: filter_empty_conv same_key_row_key image_iff)

lemma map_key_update:
  "map row_key (map (\<lambda>r. if same_key p t r then updated_row now g m n r else r) rows) = map row_key rows"
  by (induction rows) auto

lemma save_game_cases:
  assumes "save_game ft t pid g d = Inr (d', ins)"
  obtains (update) ds m n where
      "game_date_of ft (dict_get (anstoss g) 0) = Inr ds"
      "sqlite_int pid" "sqlite_int (dict_get (anstoss g) 0)"
      "int_if_str_isdigit (dict_get (einsatzMinuten g) (PStr ''0'')) = Inr m"
      "int_if_str_isdigit (dict_get (tore g) (PStr ''0'')) = Inr n"
      "sqlite_int (dict_get (runde g) 0)" "sqlite_int m" "sqlite_int n"
      "filter (same_key pid (dict_get (anstoss g) 0)) (games d) \<noteq> []"
      "\<not> ins"
      "d' = d\<lparr>games := map (\<lambda>r. if same_key pid (dict_get (anstoss g) 0) r
                                  then updated_row t g m n r else r) (games d)\<rparr>"
  | (insert) ds m n where
      "game_date_of ft (dict_get (anstoss g) 0) = Inr ds"
      "sqlite_int pid" "sqlite_int (dict_get (anstoss g) 0)"
      "int_if_str_isdigit (dict_get (einsatzMinuten g) (PStr ''0'')) = Inr m"
      "int_if_str_isdigit (dict_get (tore g) (PStr ''0'')) = Inr n"
      "sqlite_int (dict_get (runde g) 0)" "sqlite_int m" "sqlite_int n"
      "filter (same_key pid (dict_get (anstoss g) 0)) (games d) = []"
      "ins" "sqlite_int (next_id d)"
      "d' = d\<lparr>games := games d @ [new_row (next_id d) t pid ds g m n (dict_get (anstoss g) 0)],
               games_seq := next_id d\<rparr>"
  using assms unfolding save_game_def Let_def game_date_of_def
  by (auto split: sum.splits if_splits)

lemma save_game_update:
  assumes "game_date_of ft (dict_get (anstoss g) 0) = Inr ds"
      "sqlite_int pid" "sqlite_int (dict_get (anstoss g) 0)"
      "int_if_str_isdigit (dict_get (einsatzMinuten g) (PStr ''0'')) = Inr m"
      "int_if_str_isdigit (dict_get (tore g) (PStr ''0'')) = Inr n"
      "sqlite_int (dict_get (runde g) 0)" "sqlite_int m" "sqlite_int n"
      "filter (same_key pid (dict_get (anstoss g) 0)) (games d) \<noteq> []"
  shows "save_game ft t pid g d
     = Inr (d\<lparr>games := map (\<lambda>r. if same_key pid (dict_get (anstoss g) 0) r
                                  then updated_row t g m n r else r) (games d)\<rparr>, False)"
  using assms unfolding save_game_def Let_def game_date_of_def
  by (auto split: sum.splits if_splits)

lemma save_game_keys:
  assumes "save_game ft t pid g d = Inr (d', ins)"
  shows "players d' = players d"
    and "map row_key (games d') = map row_key (games d) @ (if ins then [(pid, dict_get (anstoss g) 0)] else [])"
    and "ins \<longleftrightarrow> (pid, dict_get (anstoss g) 0) \<notin> set (map row_key (games d))"
  using assms by (cases rule: save_game_cases; simp add: map_key_update filter_same_key_empty)+

lemma save_game_replay:
  assumes "save_game ft t pid g d = Inr (d', ins)"
    and "(pid, dict_get (anstoss g) 0) \<in> set (map row_key (games e))"
  shows "\<exists>e'. save_game ft t' pid g e = Inr (e', False) \<and> map row_key (games e') = map row_key (games e)"
proof -
  from assms(2) have ne: "filter (same_key pid (dict_get (anstoss g) 0)) (games e) \<noteq> []"
    using filter_same_key_empty by blast
  from assms(1) show ?thesis
    by (cases rule: save_game_cases) (use ne in \<open>simp_all add: save_game_update map_key_update\<close>)
qed

lemma save_games_keys:
  assumes "save_games ft now pid gs st = Inr st'"
  shows "set (map row_key (games (fst st))) \<union> (\<lambda>g. (pid, dict_get (anstoss g) 0)) ` set gs
           \<subseteq> set (map row_key (games (fst st')))"
  using assms
proof (induction gs arbitrary: now st)
  case Nil
  then show ?case by simp
next
  case (Cons g gs)
  from Cons.prems obtain d1 ins where
    step: "save_game ft (now 0) pid g (fst st) = Inr (d1, ins)"
    and rest: "save_games ft (\<lambda>i. now (Suc i)) pid gs
            (d1, if ins then fst (snd st) + 1 else fst (snd st),
                 if ins then snd (snd st) else snd (snd st) + 1) = Inr st'"
    by (auto split: sum.splits)
  have k: "set (map row_key (games (fst st))) \<union> {(pid, dict_get (anstoss g) 0)} \<subseteq> set (map row_key (games d1))"
    using save_game_keys(2,3)[OF step] by (cases ins) auto
  from Cons.IH[OF rest]
  have a: "set (map row_key (games d1)) \<union> (\<lambda>g. (pid, dict_get (anstoss g) 0)) ` set gs
           \<subseteq> set (map row_key (games (fst st')))"
    by simp
  have "set (map row_key (games (fst st))) \<subseteq> set (map row_key (games (fst st')))"
    using a k by blast
  moreover have "(pid, dict_get (anstoss g) 0) \<in> set (map row_key (games (fst st')))"
    using a k by blast
  moreover have "(\<lambda>g. (pid, dict_get (anstoss g) 0)) ` set gs \<subseteq> set (map row_key (games (fst st')))"
    using a by blast
  ultimately show ?case by simp
qed

lemma save_games_replay:
  assumes "save_games ft now pid gs st = Inr st'"
    and "(\<lambda>g. (pid, dict_get (anstoss g) 0)) ` set gs \<subseteq> set (map row_key (games e))"
  shows "\<exists>e'. save_games ft now' pid gs (e, m, v) = Inr (e', m, v + length gs)
            \<and> map row_key (games e') = map row_key (games e)"
  using assms
proof (induction gs arbitrary: now now' st e m v)
  case Nil
  then show ?case by simp
next
  case (Cons g gs)
  from Cons.prems(1) obtain d1 ins where
    step: "save_game ft (now 0) pid g (fst st) = Inr (d1, ins)"
    and rest: "save_games ft (\<lambda>i. now (Suc i)) pid gs
            (d1, if ins then fst (snd st) + 1 else fst (snd st),
                 if ins then snd (snd st) else snd (snd st) + 1) = Inr st'"
    by (auto split: sum.splits)
  from Cons.prems(2) have "(pid, dict_get (anstoss g) 0) \<in> set (map row_key (games e))"
    by auto
  from save_game_replay[OF step this] obtain e1 where
    e1: "save_game ft (now' 0) pid g e = Inr (e1, False)" "map row_key (games e1) = map row_key (games e)"
    by blast
  from Cons.prems(2) e1(2) have "(\<lambda>g. (pid, dict_get (anstoss g) 0)) ` set gs \<subseteq> set (map row_key (games e1))"
    by auto
  from Cons.IH[OF rest this, of "\<lambda>i. now' (Suc i)" m "v + 1"] obtain e' where
    "save_games ft (\<lambda>i. now' (Suc i)) pid gs (e1, m, v + 1) = Inr (e', m, v + 1 + length gs)"
    "map row_key (games e') = map row_key (games e1)"
    by blast
  with e1 show ?case by simp
qed

text \<open>
  C1 (upsert idempotence): when \<open>save_games_to_db\<close> has persisted a record sequence for a
  player, a second run with the same player and the same sequence returns, inserts no row
  (\<open>new_games = 0\<close>, every record is an update) and leaves the number of rows of \<open>games\<close>
  as the first run left it. A run that raises commits nothing and returns no counts.
\<close>

theorem upsert_idempotent:
  assumes "save_games_to_db ft now1 pid gs d = Inr (d1, n1, u1)"
  shows "\<exists>d2. save_games_to_db ft now2 pid gs d1 = Inr (d2, 0, length gs)
            \<and> length (games d2) = length (games d1)"
proof -
  from assms have run: "save_games ft now1 pid gs (d, 0, 0) = Inr (d1, n1, u1)"
    by (simp add: save_games_to_db_def)
  from save_games_keys[OF run]
  have "(\<lambda>g. (pid, dict_get (anstoss g) 0)) ` set gs \<subseteq> set (map row_key (games d1))"
    by simp
  from save_games_replay[OF run this, of now2 0 0] obtain d2 where
    "save_games ft now2 pid gs (d1, 0, 0) = Inr (d2, 0, length gs)"
    "map row_key (games d2) = map row_key (games d1)"
    by auto
  then show ?thesis
    unfolding save_games_to_db_def by (metis length_map)
qed

theorem upsert_idempotent_witness:
  "\<exists>d1 d2.
     save_games_to_db (\<lambda>t. Inr ''2025-11-15 11:30:00'') (\<lambda>i. ''2025-11-16 09:00:00'') 1454580
       [empty_game\<lparr>datum := Some ''15.11.2025, 11:30 Uhr'', tore := Some (PInt 1),
                    anstoss := Some 1763206200000\<rparr>,
        empty_game\<lparr>datum := Some ''15.11.2025, 11:30 Uhr'', tore := Some (PInt 2),
                    anstoss := Some 1763206200000\<rparr>]
       init_database = Inr (d1, 1, 1)
     \<and> save_games_to_db (\<lambda>t. Inr ''2025-11-15 11:30:00'') (\<lambda>i. ''2025-11-17 09:00:00'') 1454580
       [empty_game\<lparr>datum := Some ''15.11.2025, 11:30 Uhr'', tore := Some (PInt 1),
                    anstoss := Some 1763206200000\<rparr>,
        empty_game\<lparr>datum := Some ''15.11.2025, 11:30 Uhr'', tore := Some (PInt 2),
                    anstoss := Some 1763206200000\<rparr>]
       d1 = Inr (d2, 0, 2)
     \<and> length (games d2) = length (games d1)"
proof -
  have run:
    "save_games_to_db (\<lambda>t. Inr ''2025-11-15 11:30:00'') (\<lambda>i. ''2025-11-16 09:00:00'') 1454580
       [empty_game\<lparr>datum := Some ''15.11.2025, 11:30 Uhr'', tore := Some (PInt 1),
                    anstoss := Some 1763206200000\<rparr>,
        empty_game\<lparr>datum := Some ''15.11.2025, 11:30 Uhr'', tore := Some (PInt 2),
                    anstoss := Some 1763206200000\<rparr>]
       init_database
     = Inr (\<lparr>players = [],
             games = [new_row 1 ''2025-11-16 09:00:00'' 1454580 (Some ''2025-11-15 11:30:00'')
                        (empty_game\<lparr>datum := Some ''15.11.2025, 11:30 Uhr'',
                                     tore := Some (PInt 2), anstoss := Some 1763206200000\<rparr>)
                        0 2 1763206200000],
             games_seq = 1\<rparr>, 1, 1)"
    by code_simp
  from upsert_idempotent [OF run, of "\<lambda>i. ''2025-11-17 09:00:00''"] run show ?thesis
    by auto
qed


section \<open>The store: frame\<close>

lemma save_game_frame:
  assumes "save_game ft t pid g d = Inr (d', ins)"
  shows "filter (\<lambda>r. g_player_id r \<noteq> pid) (games d') = filter (\<lambda>r. g_player_id r \<noteq> pid) (games d)"
proof -
  have upd: "filter (\<lambda>r. g_player_id r \<noteq> pid)
               (map (\<lambda>r. if same_key pid ts r then updated_row t g m n r else r) rows)
             = filter (\<lambda>r. g_player_id r \<noteq> pid) rows" for ts m n rows
    by (induction rows) (auto simp: same_key_def updated_row_def)
  from assms show ?thesis
    by (cases rule: save_game_cases) (simp_all add: upd new_row_def)
qed

text \<open>
  C9 (frame): a run of \<open>save_games_to_db\<close> for player \<open>pid\<close> that returns leaves the table
  \<open>players\<close> as it was, and every row of \<open>games\<close> of another player as it was, in the same
  order. A run that raises commits nothing.
\<close>

theorem save_games_frame:
  assumes "save_games_to_db ft now pid gs d = Inr (d', n, u)"
  shows "players d' = players d
         \<and> filter (\<lambda>r. g_player_id r \<noteq> pid) (games d') = filter (\<lambda>r. g_player_id r \<noteq> pid) (games d)"
proof -
  have "players (fst st') = players (fst st)
        \<and> filter (\<lambda>r. g_player_id r \<noteq> pid) (games (fst st'))
            = filter (\<lambda>r. g_player_id r \<noteq> pid) (games (fst st))"
    if "save_games ft now pid gs st = Inr st'" for st st'
    using that
  proof (induction gs arbitrary: now st)
    case Nil
    then show ?case by simp
  next
    case (Cons g gs)
    from Cons.prems obtain d1 ins where
      step: "save_game ft (now 0) pid g (fst st) = Inr (d1, ins)"
      and rest: "save_games ft (\<lambda>i. now (Suc i)) pid gs
              (d1, if ins then fst (snd st) + 1 else fst (snd st),
                   if ins then snd (snd st) else snd (snd st) + 1) = Inr st'"
      by (auto split: sum.splits)
    from Cons.IH[OF rest] save_game_keys(1)[OF step] save_game_frame[OF step]
    show ?case by simp
  qed
  from this[of "(d, 0, 0)" "(d', n, u)"] assms show ?thesis
    by (simp add: save_games_to_db_def)
qed

theorem save_games_frame_witness:
  "\<exists>d' n u.
     save_games_to_db (\<lambda>t. Inr ''2025-11-15 11:30:00'') (\<lambda>i. ''2025-11-16 09:00:00'') 1454580
       [empty_game\<lparr>datum := Some ''15.11.2025, 11:30 Uhr'', tore := Some (PInt 1),
                    anstoss := Some 1763206200000\<rparr>]
       \<lparr>players = [\<lparr>p_player_id = 1397521, player_name = ''Ledian Avdyli'', team = Some ''U13'',
                     season_year = Some 2026, p_last_updated = Some ''2025-11-14 08:00:00''\<rparr>],
        games = [new_row 1 ''2025-11-14 08:00:00'' 1397521 (Some ''2025-11-08 10:00:00'')
                   (empty_game\<lparr>tore := Some (PInt 3)\<rparr>) 70 3 1762596000000],
        games_seq = 1\<rparr> = Inr (d', n, u)
     \<and> players d' = [\<lparr>p_player_id = 1397521, player_name = ''Ledian Avdyli'', team = Some ''U13'',
                     season_year = Some 2026, p_last_updated = Some ''2025-11-14 08:00:00''\<rparr>]
     \<and> filter (\<lambda>r. g_player_id r \<noteq> 1454580) (games d')
         = [new_row 1 ''2025-11-14 08:00:00'' 1397521 (Some ''2025-11-08 10:00:00'')
                   (empty_game\<lparr>tore := Some (PInt 3)\<rparr>) 70 3 1762596000000]"
proof -
  have run:
    "save_games_to_db (\<lambda>t. Inr ''2025-11-15 11:30:00'') (\<lambda>i. ''2025-11-16 09:00:00'') 1454580
       [empty_game\<lparr>datum := Some ''15.11.2025, 11:30 Uhr'', tore := Some (PInt 1),
                    anstoss := Some 1763206200000\<rparr>]
       \<lparr>players = [\<lparr>p_player_id = 1397521, player_name = ''Ledian Avdyli'', team = Some ''U13'',
                     season_year = Some 2026, p_last_updated = Some ''2025-11-14 08:00:00''\<rparr>],
        games = [new_row 1 ''2025-11-14 08:00:00'' 1397521 (Some ''2025-11-08 10:00:00'')
                   (empty_game\<lparr>tore := Some (PInt 3)\<rparr>) 70 3 1762596000000],
        games_seq = 1\<rparr>
     = Inr (\<lparr>players = [\<lparr>p_player_id = 1397521, player_name = ''Ledian Avdyli'',
                           team = Some ''U13'', season_year = Some 2026,
                           p_last_updated = Some ''2025-11-14 08:00:00''\<rparr>],
             games = [new_row 1 ''2025-11-14 08:00:00'' 1397521 (Some ''2025-11-08 10:00:00'')
                        (empty_game\<lparr>tore := Some (PInt 3)\<rparr>) 70 3 1762596000000,
                      new_row 2 ''2025-11-16 09:00:00'' 1454580 (Some ''2025-11-15 11:30:00'')
                        (empty_game\<lparr>datum := Some ''15.11.2025, 11:30 Uhr'',
                                     tore := Some (PInt 1), anstoss := Some 1763206200000\<rparr>)
                        0 1 1763206200000],
             games_seq = 2\<rparr>, 1, 0)"
    by code_simp
  have other: "g_player_id (new_row 1 ''2025-11-14 08:00:00'' 1397521 (Some ''2025-11-08 10:00:00'')
                   (empty_game\<lparr>tore := Some (PInt 3)\<rparr>) 70 3 1762596000000) \<noteq> 1454580"
    by (simp add: new_row_def)
  from save_games_frame [OF run] run other show ?thesis
    by simp
qed

section \<open>The store: merge\<close>

lemma unique_row:
  assumes "distinct (map row_key rows)" and "(p, t) \<in> set (map row_key rows)"
  shows "\<exists>r. filter (same_key p t) rows = [r]"
  using assms
proof (induction rows)
  case Nil
  then show ?case by simp
next
  case (Cons a rows)
  show ?case
  proof (cases "row_key a = (p, t)")
    case True
    with Cons.prems(1) have "(p, t) \<notin> set (map row_key rows)" by auto
    then have "filter (same_key p t) rows = []"
      using filter_same_key_empty by blast
    moreover from True have "same_key p t a" by (simp add: same_key_row_key)
    ultimately show ?thesis by simp
  next
    case False
    with Cons have "\<exists>r. filter (same_key p t) rows = [r]" by auto
    moreover from False have "\<not> same_key p t a" by (simp add: same_key_row_key)
    ultimately show ?thesis by simp
  qed
qed

lemma filter_updated:
  "filter (same_key p t) (map (\<lambda>r. if same_key p t r then updated_row now g m n r else r) rows)
   = map (updated_row now g m n) (filter (same_key p t) rows)"
  by (induction rows) (auto simp: same_key_row_key)

lemma save_single:
  assumes "save_games_to_db ft now pid [g] d = Inr (d', n, u)"
  shows "\<exists>ins. save_game ft (now 0) pid g d = Inr (d', ins)
           \<and> n = (if ins then 1 else 0) \<and> u = (if ins then 0 else 1)"
proof (cases "save_game ft (now 0) pid g d")
  case (Inl e)
  with assms show ?thesis by (simp add: save_games_to_db_def)
next
  case (Inr res)
  obtain d1 ins where "res = (d1, ins)" by (cases res)
  with Inr assms show ?thesis by (simp add: save_games_to_db_def split: if_splits)
qed


text \<open>
  C2 (upsert merge): in a table that satisfies \<open>UNIQUE(player_id, game_timestamp)\<close>, two
  records with the same match timestamp persisted one after the other for the same player
  leave exactly one row with that key; every column the \<open>UPDATE\<close> sets holds the value of
  the second record (minutes and goals converted, absent keys at their defaults), and the
  second run counts no insert and one update.
\<close>

theorem upsert_merge:
  assumes uniq: "distinct (map row_key (games d))"
    and first: "save_games_to_db ft now1 pid [g1] d = Inr (d1, n1, u1)"
    and second: "save_games_to_db ft now2 pid [g2] d1 = Inr (d2, n2, u2)"
    and same: "dict_get (anstoss g1) 0 = dict_get (anstoss g2) 0"
  shows "\<exists>r m n. filter (same_key pid (dict_get (anstoss g2) 0)) (games d2) = [r]
           \<and> int_if_str_isdigit (dict_get (einsatzMinuten g2) (PStr ''0'')) = Inr m
           \<and> int_if_str_isdigit (dict_get (tore g2) (PStr ''0'')) = Inr n
           \<and> competition r = Some (dict_get (bewerb g2) [])
           \<and> age_group r = Some (dict_get (ageGroup g2) [])
           \<and> g_round r = Some (dict_get (runde g2) 0)
           \<and> home_team r = Some (dict_get (heimMannschaft g2) [])
           \<and> away_team r = Some (dict_get (gastMannschaft g2) [])
           \<and> result r = Some (dict_get (ergebnis g2) [])
           \<and> minutes_played r = Some m
           \<and> goals r = Some n
           \<and> location r = Some (dict_get (spielortBezeichnung g2) [])
           \<and> match_link r = Some (dict_get (actionLink g2) [])
           \<and> last_updated r = Some (now2 0)
           \<and> n2 = 0 \<and> u2 = 1"
proof -
  let ?ts = "dict_get (anstoss g2) 0"
  from save_single [OF first] obtain ins1 where
    s1: "save_game ft (now1 0) pid g1 d = Inr (d1, ins1)"
    by blast
  from save_single [OF second] obtain ins2 where
    s2: "save_game ft (now2 0) pid g2 d1 = Inr (d2, ins2)"
    and counts: "n2 = (if ins2 then 1 else 0)" "u2 = (if ins2 then 0 else 1)"
    by blast
  have keys: "map row_key (games d1)
                = map row_key (games d) @ (if ins1 then [(pid, ?ts)] else [])"
    and ins: "ins1 \<longleftrightarrow> (pid, ?ts) \<notin> set (map row_key (games d))"
    using save_game_keys(2,3) [OF s1] same by simp_all
  have dist: "distinct (map row_key (games d1))"
    unfolding keys using uniq ins by (cases ins1) simp_all
  have mem: "(pid, ?ts) \<in> set (map row_key (games d1))"
    unfolding keys using ins by (cases ins1) simp_all
  from unique_row [OF dist mem] obtain r0 where
    r0: "filter (same_key pid ?ts) (games d1) = [r0]"
    by blast
  from s2 show ?thesis
  proof (cases rule: save_game_cases)
    case (update ds m n)
    have row: "filter (same_key pid ?ts) (games d2) = [updated_row (now2 0) g2 m n r0]"
      unfolding update(11) by (simp add: filter_updated r0)
    have fields:
      "competition (updated_row (now2 0) g2 m n r0) = Some (dict_get (bewerb g2) [])"
      "age_group (updated_row (now2 0) g2 m n r0) = Some (dict_get (ageGroup g2) [])"
      "g_round (updated_row (now2 0) g2 m n r0) = Some (dict_get (runde g2) 0)"
      "home_team (updated_row (now2 0) g2 m n r0) = Some (dict_get (heimMannschaft g2) [])"
      "away_team (updated_row (now2 0) g2 m n r0) = Some (dict_get (gastMannschaft g2) [])"
      "result (updated_row (now2 0) g2 m n r0) = Some (dict_get (ergebnis g2) [])"
      "minutes_played (updated_row (now2 0) g2 m n r0) = Some m"
      "goals (updated_row (now2 0) g2 m n r0) = Some n"
      "location (updated_row (now2 0) g2 m n r0) = Some (dict_get (spielortBezeichnung g2) [])"
      "match_link (updated_row (now2 0) g2 m n r0) = Some (dict_get (actionLink g2) [])"
      "last_updated (updated_row (now2 0) g2 m n r0) = Some (now2 0)"
      by (simp_all add: updated_row_def)
    from update(10) counts have "n2 = 0" "u2 = 1" by simp_all
    with row fields update(4,5) show ?thesis by blast
  next
    case (insert ds m n)
    with r0 show ?thesis by simp
  qed
qed

theorem upsert_merge_witness:
  "\<exists>d1 d2 r.
     save_games_to_db (\<lambda>t. Inr ''2025-11-15 11:30:00'') (\<lambda>i. ''2025-11-16 09:00:00'') 1454580
       [empty_game\<lparr>tore := Some (PInt 1), anstoss := Some 1763206200000\<rparr>]
       init_database = Inr (d1, 1, 0)
     \<and> save_games_to_db (\<lambda>t. Inr ''2025-11-15 11:30:00'') (\<lambda>i. ''2025-11-17 09:00:00'') 1454580
       [empty_game\<lparr>tore := Some (PInt 2), anstoss := Some 1763206200000\<rparr>]
       d1 = Inr (d2, 0, 1)
     \<and> filter (same_key 1454580 1763206200000) (games d2) = [r]
     \<and> goals r = Some 2 \<and> minutes_played r = Some 0
     \<and> last_updated r = Some ''2025-11-17 09:00:00''"
proof -
  have first:
    "save_games_to_db (\<lambda>t. Inr ''2025-11-15 11:30:00'') (\<lambda>i. ''2025-11-16 09:00:00'') 1454580
       [empty_game\<lparr>tore := Some (PInt 1), anstoss := Some 1763206200000\<rparr>]
       init_database
     = Inr (\<lparr>players = [],
             games = [new_row 1 ''2025-11-16 09:00:00'' 1454580 (Some ''2025-11-15 11:30:00'')
                        (empty_game\<lparr>tore := Some (PInt 1), anstoss := Some 1763206200000\<rparr>)
                        0 1 1763206200000],
             games_seq = 1\<rparr>, 1, 0)"
    by code_simp
  have second:
    "save_games_to_db (\<lambda>t. Inr ''2025-11-15 11:30:00'') (\<lambda>i. ''2025-11-17 09:00:00'') 1454580
       [empty_game\<lparr>tore := Some (PInt 2), anstoss := Some 1763206200000\<rparr>]
       \<lparr>players = [],
        games = [new_row 1 ''2025-11-16 09:00:00'' 1454580 (Some ''2025-11-15 11:30:00'')
                   (empty_game\<lparr>tore := Some (PInt 1), anstoss := Some 1763206200000\<rparr>)
                   0 1 1763206200000],
        games_seq = 1\<rparr>
     = Inr (\<lparr>players = [],
             games = [new_row 1 ''2025-11-17 09:00:00'' 1454580 (Some ''2025-11-15 11:30:00'')
                        (empty_game\<lparr>tore := Some (PInt 2), anstoss := Some 1763206200000\<rparr>)
                        0 2 1763206200000],
             games_seq = 1\<rparr>, 0, 1)"
    by code_simp
  have uniq: "distinct (map row_key (games init_database))"
    by (simp add: init_database_def)
  have same: "dict_get (anstoss (empty_game\<lparr>tore := Some (PInt 1), anstoss := Some 1763206200000\<rparr>)) 0
      = dict_get (anstoss (empty_game\<lparr>tore := Some (PInt 2), anstoss := Some 1763206200000\<rparr>)) 0"
    by simp
  have conv: "int_if_str_isdigit (PInt 2) = Inr 2" "int_if_str_isdigit (PStr ''0'') = Inr 0"
    by code_simp+
  from upsert_merge [OF uniq first second same] obtain r m n where
    "filter (same_key 1454580 (dict_get (anstoss (empty_game\<lparr>tore := Some (PInt 2), anstoss := Some 1763206200000\<rparr>)) 0))
       (games \<lparr>players = [],
             games = [new_row 1 ''2025-11-17 09:00:00'' 1454580 (Some ''2025-11-15 11:30:00'')
                        (empty_game\<lparr>tore := Some (PInt 2), anstoss := Some 1763206200000\<rparr>)
                        0 2 1763206200000],
             games_seq = 1\<rparr>) = [r]"
    "int_if_str_isdigit (dict_get (einsatzMinuten (empty_game\<lparr>tore := Some (PInt 2), anstoss := Some 1763206200000\<rparr>)) (PStr ''0'')) = Inr m"
    "int_if_str_isdigit (dict_get (tore (empty_game\<lparr>tore := Some (PInt 2), anstoss := Some 1763206200000\<rparr>)) (PStr ''0'')) = Inr n"
    "minutes_played r = Some m" "goals r = Some n" "last_updated r = Some ''2025-11-17 09:00:00''"
    by blast
  then have "filter (same_key 1454580 1763206200000)
       (games \<lparr>players = [],
             games = [new_row 1 ''2025-11-17 09:00:00'' 1454580 (Some ''2025-11-15 11:30:00'')
                        (empty_game\<lparr>tore := Some (PInt 2), anstoss := Some 1763206200000\<rparr>)
                        0 2 1763206200000],
             games_seq = 1\<rparr>) = [r]"
    "goals r = Some 2" "minutes_played r = Some 0" "last_updated r = Some ''2025-11-17 09:00:00''"
    using conv by (simp_all add: dict_get_def empty_game_def)
  with first second show ?thesis by blast
qed


section \<open>The reports: the date window\<close>

lemma where_window_left_join:
  "where_window (left_join d)
   = concat (map (\<lambda>p. map (\<lambda>g. (p, Some g)) (window_games d p)) (players d))"
proof -
  have one: "where_window (let gs = filter (\<lambda>g. g_player_id g = p_player_id p) (games d)
                           in if gs = [] then [(p, None)] else map (\<lambda>g. (p, Some g)) gs)
             = map (\<lambda>g. (p, Some g)) (window_games d p)" for p
  proof -
    let ?gs = "filter (\<lambda>g. g_player_id g = p_player_id p) (games d)"
    have w: "window_games d p = filter (\<lambda>g. in_window (game_date g)) ?gs"
      by (simp add: window_games_def conj_commute)
    show ?thesis
    proof (cases "?gs = []")
      case True
      then show ?thesis by (simp add: w where_window_def)
    next
      case False
      then show ?thesis by (simp add: w where_window_def filter_map comp_def)
    qed
  qed
  have "where_window (concat xss) = concat (map where_window xss)" for xss
    by (induction xss) (simp_all add: where_window_def)
  then show ?thesis
    unfolding left_join_def by (simp add: comp_def one)
qed

lemma window_games_filter:
  assumes "list_all (\<lambda>g. in_window (game_date g) \<longrightarrow> P g) (games d)"
  shows "window_games (d\<lparr>games := filter P (games d)\<rparr>) p = window_games d p"
proof -
  have "filter Q (filter P gs) = filter Q gs" if "list_all (\<lambda>g. Q g \<longrightarrow> P g) gs" for Q and gs :: "game_row list"
    using that by (induction gs) auto
  from this[of "\<lambda>g. g_player_id g = p_player_id p \<and> in_window (game_date g)" "games d"] assms
  show ?thesis
    unfolding window_games_def by (simp add: list_all_iff)
qed

lemma charts_ignore_filtered:
  assumes "list_all (\<lambda>g. in_window (game_date g) \<longrightarrow> P g) (games d)"
  shows "generate_minutes_chart (d\<lparr>games := filter P (games d)\<rparr>) = generate_minutes_chart d"
    and "generate_goals_chart (d\<lparr>games := filter P (games d)\<rparr>) = generate_goals_chart d"
  unfolding generate_minutes_chart_def minutes_query_def generate_goals_chart_def goals_query_def
    where_window_left_join
  by (simp_all add: window_games_filter [OF assms])

lemma in_window_not_null: "in_window date_str \<Longrightarrow> date_str \<noteq> None"
  by (cases date_str) (simp_all add: in_window_def)

lemma charts_ignore_null_dates:
  "generate_minutes_chart (d\<lparr>games := filter (\<lambda>g. game_date g \<noteq> None) (games d)\<rparr>) = generate_minutes_chart d"
  "generate_goals_chart (d\<lparr>games := filter (\<lambda>g. game_date g \<noteq> None) (games d)\<rparr>) = generate_goals_chart d"
  by (rule charts_ignore_filtered; simp add: list_all_iff in_window_not_null)+

lemma save_game_unknown_time:
  assumes "list_all unknown_time_null (games d)"
    and "save_game ft t pid g d = Inr (d', ins)"
  shows "list_all unknown_time_null (games d')"
  using assms(2)
proof (cases rule: save_game_cases)
  case (update ds m n)
  have "unknown_time_null (updated_row t g m n r) = unknown_time_null r" for r
    by (simp add: unknown_time_null_def updated_row_def)
  with assms(1) show ?thesis
    unfolding update(11) by (auto simp: list_all_iff)
next
  case (insert ds m n)
  from insert(1) have "dict_get (anstoss g) 0 = 0 \<Longrightarrow> ds = None"
    by (simp add: game_date_of_def)
  then have "unknown_time_null (new_row (next_id d) t pid ds g m n (dict_get (anstoss g) 0))"
    by (simp add: unknown_time_null_def new_row_def)
  with assms(1) show ?thesis
    unfolding insert(12) by simp
qed

lemma save_games_unknown_time:
  assumes "save_games ft now pid gs st = Inr st'"
    and "list_all unknown_time_null (games (fst st))"
  shows "list_all unknown_time_null (games (fst st'))"
  using assms
proof (induction gs arbitrary: now st)
  case Nil
  then show ?case by simp
next
  case (Cons g gs)
  from Cons.prems(1) obtain d1 ins where
    step: "save_game ft (now 0) pid g (fst st) = Inr (d1, ins)"
    and rest: "save_games ft (\<lambda>i. now (Suc i)) pid gs
            (d1, if ins then fst (snd st) + 1 else fst (snd st),
                 if ins then snd (snd st) else snd (snd st) + 1) = Inr st'"
    by (auto split: sum.splits)
  from save_game_unknown_time [OF Cons.prems(2) step] Cons.IH [OF rest]
  show ?case by simp
qed

text \<open>
  C10 (unknown-time games): in a database whose rows with timestamp 0 have a NULL
  \<open>game_date\<close> (the fresh database is one, and \<open>save_games_to_db\<close> is the only writer of
  \<open>games\<close>), a run of \<open>save_games_to_db\<close> keeps that so: after it every record with timestamp
  0 or no timestamp has its row, with a NULL \<open>game_date\<close>. The two queries with the date
  window give the same chart input with and without the rows of timestamp 0: \<open>NULL BETWEEN\<close>
  is not true, so their minutes and goals are in no sum.
\<close>

theorem unknown_time_games_not_charted:
  assumes "list_all unknown_time_null (games d)"
    and "save_games_to_db ft now pid gs d = Inr (d', n, u)"
  shows "list_all unknown_time_null (games d')
         \<and> (\<forall>g \<in> set gs. dict_get (anstoss g) 0 = 0 \<longrightarrow>
               (\<exists>r \<in> set (games d'). row_key r = (pid, 0) \<and> game_date r = None))
         \<and> generate_minutes_chart (d'\<lparr>games := filter (\<lambda>r. game_timestamp r \<noteq> 0) (games d')\<rparr>)
             = generate_minutes_chart d'
         \<and> generate_goals_chart (d'\<lparr>games := filter (\<lambda>r. game_timestamp r \<noteq> 0) (games d')\<rparr>)
             = generate_goals_chart d'"
proof -
  from assms(2) have run: "save_games ft now pid gs (d, 0, 0) = Inr (d', n, u)"
    by (simp add: save_games_to_db_def)
  from save_games_unknown_time [OF run] assms(1)
  have inv: "list_all unknown_time_null (games d')"
    by simp
  have rows: "\<exists>r \<in> set (games d'). row_key r = (pid, 0) \<and> game_date r = None"
    if "g \<in> set gs" and "dict_get (anstoss g) 0 = 0" for g
  proof -
    from save_games_keys [OF run] that have "(pid, 0) \<in> set (map row_key (games d'))"
      by force
    then obtain r where r: "r \<in> set (games d')" "row_key r = (pid, 0)"
      by auto
    with inv have "game_date r = None"
      by (auto simp: list_all_iff unknown_time_null_def row_key_def split: if_splits)
    with r show ?thesis by blast
  qed
  have "list_all (\<lambda>g. in_window (game_date g) \<longrightarrow> game_timestamp g \<noteq> 0) (games d')"
    using inv in_window_not_null
    by (fastforce simp: list_all_iff unknown_time_null_def split: if_splits)
  from charts_ignore_filtered [OF this] inv rows show ?thesis
    by blast
qed

theorem unknown_time_games_not_charted_witness:
  "\<exists>d'. save_games_to_db (\<lambda>t. Inr ''2025-11-15 11:30:00'') (\<lambda>i. ''2025-11-16 09:00:00'') 1454580
           [empty_game\<lparr>datum := Some ''garbage'', einsatzMinuten := Some (PInt 45),
                        anstoss := Some 0\<rparr>]
           init_database = Inr (d', 1, 0)
        \<and> list_all unknown_time_null (games d')
        \<and> (\<exists>r \<in> set (games d'). row_key r = (1454580, 0) \<and> game_date r = None)
        \<and> generate_minutes_chart (d'\<lparr>games := filter (\<lambda>r. game_timestamp r \<noteq> 0) (games d')\<rparr>)
            = generate_minutes_chart d'
        \<and> generate_goals_chart (d'\<lparr>games := filter (\<lambda>r. game_timestamp r \<noteq> 0) (games d')\<rparr>)
            = generate_goals_chart d'"
proof -
  have run:
    "save_games_to_db (\<lambda>t. Inr ''2025-11-15 11:30:00'') (\<lambda>i. ''2025-11-16 09:00:00'') 1454580
       [empty_game\<lparr>datum := Some ''garbage'', einsatzMinuten := Some (PInt 45),
                    anstoss := Some 0\<rparr>]
       init_database
     = Inr (\<lparr>players = [],
             games = [new_row 1 ''2025-11-16 09:00:00'' 1454580 None
                        (empty_game\<lparr>datum := Some ''garbage'', einsatzMinuten := Some (PInt 45),
                                     anstoss := Some 0\<rparr>) 45 0 0],
             games_seq = 1\<rparr>, 1, 0)"
    by code_simp
  have inv: "list_all unknown_time_null (games init_database)"
    by (simp add: init_database_def)
  have zero: "dict_get (anstoss (empty_game\<lparr>datum := Some ''garbage'',
                 einsatzMinuten := Some (PInt 45), anstoss := Some 0\<rparr>)) 0 = 0"
    by (simp add: dict_get_def)
  from unknown_time_games_not_charted [OF inv run] zero run show ?thesis
    by simp
qed


section \<open>The reports: which players are charted\<close>

lemma non_null_simps [simp]:
  "non_null [] = []" "non_null (None # vs) = non_null vs" "non_null (Some x # vs) = x # non_null vs"
  by (simp_all add: non_null_def)

lemma sql_sum_value:
  assumes "sql_sum vs acc = Inr s"
  shows "s = (case acc of None \<Rightarrow> sum_non_null vs
                       | Some a \<Rightarrow> Some (a + sum_list (non_null vs)))"
  using assms
proof (induction vs acc rule: sql_sum.induct)
  case (1 acc)
  then show ?case by (simp add: sum_non_null_def split: option.splits)
next
  case (2 vs acc)
  then show ?case by (simp add: sum_non_null_def split: option.splits)
next
  case (3 v vs acc)
  then show ?case
    by (auto simp: sum_non_null_def Let_def split: option.splits if_splits)
qed

lemma mset_insert_by: "mset (insert_by le x xs) = add_mset x (mset xs)"
  by (induction xs) auto

lemma mset_order_by_desc: "mset (order_by_desc rows) = mset rows"
  unfolding order_by_desc_def by (induction rows) (simp_all add: mset_insert_by)

lemma mset_order_by_asc: "mset (order_by_asc rows) = mset rows"
  unfolding order_by_asc_def by (induction rows) (simp_all add: mset_insert_by)

lemma remdups_block:
  assumes "xs \<noteq> []" and "\<forall>x \<in> set xs. x = k" and "k \<notin> set ys"
  shows "remdups (xs @ ys) = k # remdups ys"
  using assms
proof (induction xs)
  case Nil
  then show ?case by simp
next
  case (Cons a xs)
  then show ?case by (cases xs) auto
qed

lemma group_by_blocks:
  assumes own: "\<And>p row. row \<in> set (f p) \<Longrightarrow> fst row = p"
    and dist: "distinct (map player_key ps)"
  shows "group_by (concat (map f ps))
         = map (\<lambda>p. (player_key p, f p)) (filter (\<lambda>p. f p \<noteq> []) ps)"
  using dist
proof (induction ps)
  case Nil
  then show ?case by (simp add: group_by_def)
next
  case (Cons p ps)
  let ?R = "concat (map f ps)"
  have keyp: "group_key row = player_key p" if "row \<in> set (f p)" for row
    using own [OF that] by (simp add: group_key_def player_key_def)
  have keyR: "group_key row \<in> set (map player_key ps)" if "row \<in> set ?R" for row
  proof -
    from that obtain q where "q \<in> set ps" "row \<in> set (f q)" by auto
    with own [of row q] show ?thesis by (auto simp: group_key_def player_key_def)
  qed
  from Cons.prems have fresh: "player_key p \<notin> set (map player_key ps)" and dist': "distinct (map player_key ps)"
    by simp_all
  have otherR: "group_key row \<noteq> player_key p" if "row \<in> set ?R" for row
    using keyR [OF that] fresh by metis
  have notR: "player_key p \<notin> set (map group_key ?R)"
  proof
    assume "player_key p \<in> set (map group_key ?R)"
    then have "player_key p \<in> group_key ` set ?R"
      by (simp only: set_map)
    then obtain row where "row \<in> set ?R" "group_key row = player_key p"
      by (metis imageE)
    with otherR show False by blast
  qed
  from Cons.IH [OF dist'] have IH: "group_by ?R = map (\<lambda>p. (player_key p, f p)) (filter (\<lambda>p. f p \<noteq> []) ps)" .
  show ?case
  proof (cases "f p = []")
    case True
    with IH show ?thesis by simp
  next
    case False
    have keys: "remdups (map group_key (f p @ ?R)) = player_key p # remdups (map group_key ?R)"
    proof -
      have "remdups (map group_key (f p) @ map group_key ?R)
              = player_key p # remdups (map group_key ?R)"
        using False keyp notR by (intro remdups_block) auto
      then show ?thesis by (simp only: map_append)
    qed
    have own_group: "filter (\<lambda>row. group_key row = player_key p) (f p @ ?R) = f p"
    proof -
      have "filter (\<lambda>row. group_key row = player_key p) (f p) = f p"
        using keyp by (auto simp: filter_id_conv)
      moreover have "filter (\<lambda>row. group_key row = player_key p) ?R = []"
        unfolding filter_empty_conv using otherR by blast
      ultimately show ?thesis by simp
    qed
    have others: "map (\<lambda>k. (k, filter (\<lambda>row. group_key row = k) (f p @ ?R))) (remdups (map group_key ?R))
                  = map (\<lambda>k. (k, filter (\<lambda>row. group_key row = k) ?R)) (remdups (map group_key ?R))"
    proof (rule map_cong [OF refl])
      fix k assume "k \<in> set (remdups (map group_key ?R))"
      then have "k \<in> set (map group_key ?R)" by (simp only: set_remdups)
      with notR have "k \<noteq> player_key p" by metis
      with keyp have "filter (\<lambda>row. group_key row = k) (f p) = []"
        by (auto simp: filter_empty_conv)
      then show "(k, filter (\<lambda>row. group_key row = k) (f p @ ?R)) = (k, filter (\<lambda>row. group_key row = k) ?R)"
        by simp
    qed
    have "group_by (f p @ ?R) = (player_key p, f p) # group_by ?R"
      unfolding group_by_def keys using own_group others by simp
    with False IH show ?thesis by simp
  qed
qed

lemma select_sums_map:
  assumes "select_sums col (map (\<lambda>p. (player_key p, f p)) ps) = Inr rows"
  shows "rows = map (\<lambda>p. (player_name p, sum_non_null (map (column col) (f p)))) ps"
  using assms
proof (induction ps arbitrary: rows)
  case Nil
  then show ?case by simp
next
  case (Cons p ps)
  from Cons.prems obtain s rest where
    s: "sql_sum (map (column col) (f p)) None = Inr s"
    and rest: "select_sums col (map (\<lambda>p. (player_key p, f p)) ps) = Inr rest"
    and rows: "rows = (player_name p, s) # rest"
    by (auto simp: player_key_def split: sum.splits)
  from sql_sum_value [OF s] have "s = sum_non_null (map (column col) (f p))" by simp
  with Cons.IH [OF rest] rows show ?case by simp
qed

lemma distinct_player_key:
  "distinct (map p_player_id ps) \<Longrightarrow> distinct (map player_key ps)"
  by (induction ps) (auto simp: player_key_def)

lemma column_window_rows:
  "map (column col) (map (\<lambda>g. (p, Some g)) gs) = map col gs"
  by (simp add: column_def comp_def)

lemma window_groups:
  assumes "distinct (map p_player_id (players d))"
  shows "group_by (where_window (left_join d))
         = map (\<lambda>p. (player_key p, map (\<lambda>g. (p, Some g)) (window_games d p)))
             (filter (\<lambda>p. window_games d p \<noteq> []) (players d))"
proof -
  have "group_by (concat (map (\<lambda>p. map (\<lambda>g. (p, Some g)) (window_games d p)) (players d)))
        = map (\<lambda>p. (player_key p, map (\<lambda>g. (p, Some g)) (window_games d p)))
            (filter (\<lambda>p. map (\<lambda>g. (p, Some g)) (window_games d p) \<noteq> []) (players d))"
    by (rule group_by_blocks) (auto simp: distinct_player_key [OF assms])
  then show ?thesis
    by (simp add: where_window_left_join)
qed

lemma window_sums:
  assumes "distinct (map p_player_id (players d))"
    and "select_sums col (group_by (where_window (left_join d))) = Inr rows"
  shows "rows = map (\<lambda>p. (player_name p, sum_non_null (map col (window_games d p))))
                  (filter (\<lambda>p. window_games d p \<noteq> []) (players d))"
  using select_sums_map [of col "\<lambda>p. map (\<lambda>g. (p, Some g)) (window_games d p)"
      "filter (\<lambda>p. window_games d p \<noteq> []) (players d)" rows]
    assms(2)
  unfolding window_groups [OF assms(1)] column_window_rows by simp

text \<open>What the minutes query of scrape_two_step.py returns: a row for every player with a
  game inside the window, none for the others.\<close>

lemma minutes_query_rows:
  assumes "distinct (map p_player_id (players d))" and "minutes_query d = Inr rows"
  shows "mset rows = mset (map (\<lambda>p. (player_name p, sum_non_null (map minutes_played (window_games d p))))
                            (filter (\<lambda>p. window_games d p \<noteq> []) (players d)))"
proof -
  from assms(2) obtain rs where
    rs: "select_sums minutes_played (group_by (where_window (left_join d))) = Inr rs"
    and rows: "rows = order_by_desc rs"
    unfolding minutes_query_def
    by (cases "select_sums minutes_played (group_by (where_window (left_join d)))") auto
  from window_sums [OF assms(1) rs] rows show ?thesis
    by (simp add: mset_order_by_desc)
qed

lemma sum_non_null_Nil [simp]: "sum_non_null [] = None"
  by (simp add: sum_non_null_def)

text \<open>
  C5, as amended (goals chart of scrape_two_step.py): when \<open>player_id\<close> is the key of
  \<open>players\<close> and the query returns, its rows are one for each player whose goals inside
  the date window sum to more than zero, with that sum, and no other row; a player whose
  sum is zero, negative or NULL (no game in the window) has no row. The rows are the
  input of the chart.
\<close>

theorem goals_chart_scorers:
  assumes "distinct (map p_player_id (players d))" and "goals_query d = Inr rows"
  shows "mset rows
         = mset (map (\<lambda>p. (player_name p, sum_non_null (map goals (window_games d p))))
                  (filter (\<lambda>p. case sum_non_null (map goals (window_games d p)) of
                                  None \<Rightarrow> False
                                | Some s \<Rightarrow> 0 < s) (players d)))
         \<and> generate_goals_chart d = Inr (chart_input rows)"
proof -
  let ?total = "\<lambda>p. sum_non_null (map goals (window_games d p))"
  let ?pos = "\<lambda>p. case ?total p of None \<Rightarrow> False | Some s \<Rightarrow> 0 < s"
  from assms(2) obtain rs where
    rs: "select_sums goals (group_by (where_window (left_join d))) = Inr rs"
    and rows: "rows = order_by_desc (having_positive rs)"
    unfolding goals_query_def
    by (cases "select_sums goals (group_by (where_window (left_join d)))") auto
  have rs': "rs = map (\<lambda>p. (player_name p, ?total p)) (filter (\<lambda>p. window_games d p \<noteq> []) (players d))"
    by (rule window_sums [OF assms(1) rs])
  have "having_positive (map (\<lambda>p. (player_name p, ?total p)) ps)
        = map (\<lambda>p. (player_name p, ?total p)) (filter ?pos ps)" for ps
    by (induction ps) (simp_all add: having_positive_def)
  moreover have "filter ?pos (filter (\<lambda>p. window_games d p \<noteq> []) ps) = filter ?pos ps" for ps
    by (induction ps) auto
  ultimately have "having_positive rs = map (\<lambda>p. (player_name p, ?total p)) (filter ?pos (players d))"
    unfolding rs' by simp
  with rows have "mset rows = mset (map (\<lambda>p. (player_name p, ?total p)) (filter ?pos (players d)))"
    by (simp add: mset_order_by_desc)
  moreover from assms(2) have "generate_goals_chart d = Inr (chart_input rows)"
    by (simp add: generate_goals_chart_def)
  ultimately show ?thesis by simp
qed

lemma left_join_groups:
  assumes "distinct (map p_player_id (players d))"
  shows "group_by (left_join d)
         = map (\<lambda>p. (player_key p,
                    if player_games d p = [] then [(p, None)]
                    else map (\<lambda>g. (p, Some g)) (player_games d p)))
             (players d)"
proof -
  let ?f = "\<lambda>p. if player_games d p = [] then [(p, None)]
                 else map (\<lambda>g. (p, Some g)) (player_games d p)"
  have "group_by (concat (map ?f (players d)))
        = map (\<lambda>p. (player_key p, ?f p)) (filter (\<lambda>p. ?f p \<noteq> []) (players d))"
    by (rule group_by_blocks) (auto simp: distinct_player_key [OF assms] split: if_splits)
  moreover have "filter (\<lambda>p. ?f p \<noteq> []) (players d) = players d"
    by (simp add: filter_id_conv)
  moreover have "left_join d = concat (map ?f (players d))"
    by (simp add: left_join_def player_games_def Let_def cong: if_cong)
  ultimately show ?thesis by simp
qed

lemma all_player_sums:
  assumes "distinct (map p_player_id (players d))"
    and "select_sums col (group_by (left_join d)) = Inr rows"
  shows "rows = map (\<lambda>p. (player_name p, sum_non_null (map col (player_games d p)))) (players d)"
proof -
  have "sum_non_null (map (column col)
          (if player_games d p = [] then [(p, None)]
           else map (\<lambda>g. (p, Some g)) (player_games d p)))
        = sum_non_null (map col (player_games d p))" for p
  proof (cases "player_games d p = []")
    case True
    then show ?thesis by (simp add: column_def sum_non_null_def)
  next
    case False
    then show ?thesis by (simp only: if_False column_window_rows)
  qed
  with select_sums_map [of col "\<lambda>p. if player_games d p = [] then [(p, None)]
                    else map (\<lambda>g. (p, Some g)) (player_games d p)" "players d" rows]
    assms(2)
  show ?thesis
    unfolding left_join_groups [OF assms(1)] by simp
qed

text \<open>What the minutes query of scrape_two_step_clickevent-working.py returns: a row for
  every player, with a NULL sum for a player without games, which \<open>chart_input\<close> turns
  into 0.\<close>

lemma minutes_query_clickevent_rows:
  assumes "distinct (map p_player_id (players d))" and "minutes_query_clickevent d = Inr rows"
  shows "mset rows = mset (map (\<lambda>p. (player_name p, sum_non_null (map minutes_played (player_games d p))))
                            (players d))"
proof -
  from assms(2) obtain rs where
    rs: "select_sums minutes_played (group_by (left_join d)) = Inr rs"
    and rows: "rows = order_by_desc rs"
    unfolding minutes_query_clickevent_def
    by (cases "select_sums minutes_played (group_by (left_join d))") auto
  from all_player_sums [OF assms(1) rs] rows show ?thesis
    by (simp add: mset_order_by_desc)
qed

theorem goals_chart_scorers_witness:
  "goals_query
     \<lparr>players = [\<lparr>p_player_id = 1397521, player_name = ''Ledian Avdyli'', team = Some ''U13'',
                   season_year = Some 2026, p_last_updated = Some ''2025-11-14 08:00:00''\<rparr>,
                 \<lparr>p_player_id = 1454580, player_name = ''Liam Fleck'', team = Some ''U13'',
                   season_year = Some 2026, p_last_updated = Some ''2025-11-14 08:00:00''\<rparr>],
      games = [new_row 1 ''2025-11-14 08:00:00'' 1397521 (Some ''2025-11-08 10:00:00'')
                 empty_game 70 0 1762596000000,
               new_row 2 ''2025-11-16 09:00:00'' 1454580 (Some ''2025-11-15 11:30:00'')
                 empty_game 45 2 1763206200000],
      games_seq = 2\<rparr> = Inr [(''Liam Fleck'', Some 2)]
   \<and> generate_goals_chart
     \<lparr>players = [\<lparr>p_player_id = 1397521, player_name = ''Ledian Avdyli'', team = Some ''U13'',
                   season_year = Some 2026, p_last_updated = Some ''2025-11-14 08:00:00''\<rparr>,
                 \<lparr>p_player_id = 1454580, player_name = ''Liam Fleck'', team = Some ''U13'',
                   season_year = Some 2026, p_last_updated = Some ''2025-11-14 08:00:00''\<rparr>],
      games = [new_row 1 ''2025-11-14 08:00:00'' 1397521 (Some ''2025-11-08 10:00:00'')
                 empty_game 70 0 1762596000000,
               new_row 2 ''2025-11-16 09:00:00'' 1454580 (Some ''2025-11-15 11:30:00'')
                 empty_game 45 2 1763206200000],
      games_seq = 2\<rparr> = Inr (Some ([''Liam Fleck''], [2]))"
proof -
  let ?d = "\<lparr>players = [\<lparr>p_player_id = 1397521, player_name = ''Ledian Avdyli'', team = Some ''U13'',
                   season_year = Some 2026, p_last_updated = Some ''2025-11-14 08:00:00''\<rparr>,
                 \<lparr>p_player_id = 1454580, player_name = ''Liam Fleck'', team = Some ''U13'',
                   season_year = Some 2026, p_last_updated = Some ''2025-11-14 08:00:00''\<rparr>],
      games = [new_row 1 ''2025-11-14 08:00:00'' 1397521 (Some ''2025-11-08 10:00:00'')
                 empty_game 70 0 1762596000000,
               new_row 2 ''2025-11-16 09:00:00'' 1454580 (Some ''2025-11-15 11:30:00'')
                 empty_game 45 2 1763206200000],
      games_seq = 2\<rparr>"
  have q: "goals_query ?d = Inr [(''Liam Fleck'', Some 2)]"
    by code_simp
  have dist: "distinct (map p_player_id (players ?d))"
    by simp
  have "chart_input [(''Liam Fleck'', Some 2)] = Some ([''Liam Fleck''], [2])"
    by (simp add: chart_input_def)
  with goals_chart_scorers [OF dist q] q show ?thesis
    by simp
qed

text \<open>
  C5 as stated fails on scrape_two_step_clickevent-working.py, whose query has no
  \<open>HAVING\<close>: a player whose goals sum to zero is in the input of its goals chart.
\<close>

theorem goals_chart_clickevent_zero_total:
  "generate_goals_chart_clickevent
     \<lparr>players = [\<lparr>p_player_id = 1397521, player_name = ''Ledian Avdyli'', team = Some ''U13'',
                   season_year = Some 2026, p_last_updated = Some ''2025-11-14 08:00:00''\<rparr>],
      games = [new_row 1 ''2025-11-14 08:00:00'' 1397521 (Some ''2025-11-08 10:00:00'')
                 empty_game 70 0 1762596000000],
      games_seq = 1\<rparr> = Inr (Some ([''Ledian Avdyli''], [0]))"
  by code_simp

text \<open>
  C4 (the minutes chart has every saved player, one without games with 0): in
  scrape_two_step.py the \<open>WHERE\<close> on \<open>g.game_date\<close> removes the row the \<open>LEFT JOIN\<close> keeps
  for a player without games, so a database with one saved player and no game gives no
  chart input at all. The query of scrape_two_step_clickevent-working.py, without the
  \<open>WHERE\<close>, gives the player with 0.
\<close>

theorem minutes_chart_omits_player:
  "generate_minutes_chart
     \<lparr>players = [\<lparr>p_player_id = 1454580, player_name = ''Liam Fleck'', team = Some ''U13'',
                   season_year = Some 2026, p_last_updated = Some ''2025-11-16 10:00:00''\<rparr>],
      games = [], games_seq = 0\<rparr> = Inr None
   \<and> generate_minutes_chart_clickevent
     \<lparr>players = [\<lparr>p_player_id = 1454580, player_name = ''Liam Fleck'', team = Some ''U13'',
                   season_year = Some 2026, p_last_updated = Some ''2025-11-16 10:00:00''\<rparr>],
      games = [], games_seq = 0\<rparr> = Inr (Some ([''Liam Fleck''], [0]))"
  by code_simp

lemma minutes_chart_omits_player_outside_window:
  "generate_minutes_chart
     \<lparr>players = [\<lparr>p_player_id = 1397521, player_name = ''Ledian Avdyli'', team = Some ''U13'',
                   season_year = Some 2026, p_last_updated = Some ''2025-11-14 08:00:00''\<rparr>,
                 \<lparr>p_player_id = 1454580, player_name = ''Liam Fleck'', team = Some ''U13'',
                   season_year = Some 2026, p_last_updated = Some ''2025-11-14 08:00:00''\<rparr>],
      games = [new_row 1 ''2025-11-14 08:00:00'' 1397521 (Some ''2025-11-08 10:00:00'')
                 empty_game 70 0 1762596000000,
               new_row 2 ''2025-11-16 09:00:00'' 1454580 (Some ''2025-05-10 11:30:00'')
                 empty_game 45 2 1746869400000],
      games_seq = 2\<rparr> = Inr (Some ([''Ledian Avdyli''], [70]))"
  by code_simp


section \<open>Teams\<close>

lemma first_cut_none: "\<not> substring_in sep s \<Longrightarrow> first_cut sep s = (s, [])"
  by (induction s) auto

lemma first_cut_parts:
  "substring_in sep s \<Longrightarrow> s = fst (first_cut sep s) @ sep @ snd (first_cut sep s)"
proof (induction s)
  case Nil
  then show ?case by simp
next
  case (Cons c cs)
  show ?case
  proof (cases "take (length sep) (c # cs) = sep")
    case True
    then have "sep @ drop (length sep) (c # cs) = c # cs"
      by (metis append_take_drop_id)
    with True show ?thesis by simp
  next
    case False
    with Cons show ?thesis by simp
  qed
qed

lemma split_acc_first_cut:
  assumes "sep \<noteq> []"
  shows "split_acc sep acc s
         = (if substring_in sep s
            then (rev acc @ fst (first_cut sep s)) # split_acc sep [] (snd (first_cut sep s))
            else [rev acc @ s])"
  using assms
proof (induction sep acc s rule: split_acc.induct)
  case (1 sep acc)
  then show ?case by simp
next
  case (2 sep acc c cs)
  show ?case
  proof (cases "take (length sep) (c # cs) = sep")
    case True
    with 2 show ?thesis by simp
  next
    case False
    with 2 show ?thesis by simp
  qed
qed

lemma str_split_first_two:
  assumes "sep \<noteq> []" and "substring_in sep s"
  shows "\<exists>rest. str_split sep s
           = fst (first_cut sep s) # fst (first_cut sep (snd (first_cut sep s))) # rest"
proof -
  let ?t = "snd (first_cut sep s)"
  have "\<exists>rest. split_acc sep [] ?t = fst (first_cut sep ?t) # rest"
    using split_acc_first_cut [OF assms(1), of "[]" ?t] first_cut_none [of sep ?t]
    by (cases "substring_in sep ?t") simp_all
  with split_acc_first_cut [OF assms(1), of "[]" s] assms(2) show ?thesis
    unfolding str_split_def by auto
qed

lemma col_class_c3: "col_class [''c3''] = Some ''c3''"
  by code_simp

text \<open>
  C8, as amended (column 3): a fragment without a link gives its text as home team and
  the empty string as away team. A fragment with a link gives the link's \<open>href\<close> (the empty
  string if it has none) as target URL; when the link's title contains \<open>" - "\<close>, the home
  team is the stripped text before the first \<open>" - "\<close> and the away team the stripped text
  between the first \<open>" - "\<close> and the next one (the end of the title if there is no other).
\<close>

theorem teams_fragment:
  assumes "col_class (classes d) = Some ''c3''"
  shows "(anchor d = None \<longrightarrow>
            scan_div d (games_data, current_game)
              = Inr (games_data,
                     current_game\<lparr>heimMannschaft := Some (dict_get (span_text d) []),
                                   gastMannschaft := Some []\<rparr>))
         \<and> (\<forall>lnk. anchor d = Some lnk \<longrightarrow>
              (\<exists>g. scan_div d (games_data, current_game) = Inr (games_data, g)
                 \<and> actionLink g = Some (dict_get (href lnk) [])
                 \<and> (substring_in '' - '' (dict_get (title lnk) []) \<longrightarrow>
                      g = current_game
                          \<lparr>heimMannschaft :=
                             Some (strip (fst (first_cut '' - '' (dict_get (title lnk) [])))),
                           gastMannschaft :=
                             Some (strip (fst (first_cut '' - ''
                                    (snd (first_cut '' - '' (dict_get (title lnk) [])))))),
                           actionLink := Some (dict_get (href lnk) [])\<rparr>)))"
proof (intro conjI allI impI)
  assume "anchor d = None"
  with assms show "scan_div d (games_data, current_game)
              = Inr (games_data,
                     current_game\<lparr>heimMannschaft := Some (dict_get (span_text d) []),
                                   gastMannschaft := Some []\<rparr>)"
    by (simp add: scan_div_def scan_teams_def dict_get_def Let_def)
next
  fix lnk
  assume lnk: "anchor d = Some lnk"
  let ?ttl = "dict_get (title lnk) []"
  show "\<exists>g. scan_div d (games_data, current_game) = Inr (games_data, g)
                 \<and> actionLink g = Some (dict_get (href lnk) [])
                 \<and> (substring_in '' - '' ?ttl \<longrightarrow>
                      g = current_game
                          \<lparr>heimMannschaft := Some (strip (fst (first_cut '' - '' ?ttl))),
                           gastMannschaft :=
                             Some (strip (fst (first_cut '' - '' (snd (first_cut '' - '' ?ttl))))),
                           actionLink := Some (dict_get (href lnk) [])\<rparr>)"
  proof (cases "substring_in '' - '' ?ttl")
    case True
    from str_split_first_two [OF _ True] obtain rest where
      "str_split '' - '' ?ttl
         = fst (first_cut '' - '' ?ttl) # fst (first_cut '' - '' (snd (first_cut '' - '' ?ttl))) # rest"
      by auto
    with True lnk assms show ?thesis
      by (simp add: scan_div_def scan_teams_def Let_def)
  next
    case False
    with lnk assms show ?thesis
      by (simp add: scan_div_def scan_teams_def Let_def)
  qed
qed


theorem teams_fragment_witness:
  "scan_div \<lparr>classes = [''c3''], span_text = Some ''Stadlau'', anchor = None\<rparr> ([], empty_game)
     = Inr ([], empty_game\<lparr>heimMannschaft := Some ''Stadlau'', gastMannschaft := Some []\<rparr>)
   \<and> scan_div \<lparr>classes = [''c3''], span_text = Some ''Stadlau : Horn'',
               anchor = Some \<lparr>title = Some ''Stadlau - Horn'', href = Some ''/spiel/1''\<rparr>\<rparr>
        ([], empty_game)
     = Inr ([], empty_game\<lparr>heimMannschaft := Some ''Stadlau'', gastMannschaft := Some ''Horn'',
                            actionLink := Some ''/spiel/1''\<rparr>)"
proof -
  have c3: "col_class (classes \<lparr>classes = [''c3''], span_text = Some ''Stadlau'', anchor = None\<rparr>)
              = Some ''c3''"
    "col_class (classes \<lparr>classes = [''c3''], span_text = Some ''Stadlau : Horn'',
               anchor = Some \<lparr>title = Some ''Stadlau - Horn'', href = Some ''/spiel/1''\<rparr>\<rparr>)
              = Some ''c3''"
    by (simp_all add: col_class_c3)
  have cut: "substring_in '' - '' ''Stadlau - Horn''"
    "strip (fst (first_cut '' - '' ''Stadlau - Horn'')) = ''Stadlau''"
    "strip (fst (first_cut '' - '' (snd (first_cut '' - '' ''Stadlau - Horn'')))) = ''Horn''"
    by code_simp+
  from teams_fragment [OF c3(1), of "[]" empty_game]
  have first: "scan_div \<lparr>classes = [''c3''], span_text = Some ''Stadlau'', anchor = None\<rparr>
                 ([], empty_game)
     = Inr ([], empty_game\<lparr>heimMannschaft := Some ''Stadlau'', gastMannschaft := Some []\<rparr>)"
    by (simp add: dict_get_def)
  from teams_fragment [OF c3(2), of "[]" empty_game] cut
  have "scan_div \<lparr>classes = [''c3''], span_text = Some ''Stadlau : Horn'',
               anchor = Some \<lparr>title = Some ''Stadlau - Horn'', href = Some ''/spiel/1''\<rparr>\<rparr>
        ([], empty_game)
     = Inr ([], empty_game\<lparr>heimMannschaft := Some ''Stadlau'', gastMannschaft := Some ''Horn'',
                            actionLink := Some ''/spiel/1''\<rparr>)"
    by (simp add: dict_get_def)
  with first show ?thesis by simp
qed

text \<open>
  C8 as stated fails: the title is split at every \<open>" - "\<close> and the away team is the second
  piece, not what follows the first separator.
\<close>

theorem teams_second_separator:
  "\<exists>g. scan_div \<lparr>classes = [''c3''], span_text = Some ''A : B'',
                  anchor = Some \<lparr>title = Some ''A - B - C'', href = Some ''/spiel/1''\<rparr>\<rparr>
           ([], empty_game) = Inr ([], g)
       \<and> heimMannschaft g = Some ''A'' \<and> gastMannschaft g = Some ''B''
       \<and> first_cut '' - '' ''A - B - C'' = (''A'', ''B - C'')"
proof -
  have "scan_div \<lparr>classes = [''c3''], span_text = Some ''A : B'',
                  anchor = Some \<lparr>title = Some ''A - B - C'', href = Some ''/spiel/1''\<rparr>\<rparr>
           ([], empty_game)
        = Inr ([], empty_game\<lparr>heimMannschaft := Some ''A'', gastMannschaft := Some ''B'',
                               actionLink := Some ''/spiel/1''\<rparr>)"
    by code_simp
  moreover have "first_cut '' - '' ''A - B - C'' = (''A'', ''B - C'')"
    by code_simp
  ultimately show ?thesis by simp
qed

text \<open>
  A link whose title has no \<open>" - "\<close> sets neither team: the text is the fallback only
  where there is no link.
\<close>

lemma teams_link_without_separator:
  "scan_div \<lparr>classes = [''c3''], span_text = Some ''Stadlau'',
              anchor = Some \<lparr>title = Some ''Stadlau'', href = Some ''/spiel/1''\<rparr>\<rparr>
     ([], empty_game)
   = Inr ([], empty_game\<lparr>actionLink := Some ''/spiel/1''\<rparr>)"
  by code_simp

end
